theory Spec2Isabelle
  imports Main
begin

section \<open>Configuration, errors and string building\<close>

text \<open>
  The repository composes one infrastructure stack per region (\<^verbatim>\<open>app.py\<close>) from a
  configuration dictionary and a list of application descriptors
  (\<^verbatim>\<open>cloudinfra.py\<close>, class \<^verbatim>\<open>cloud_infra\<close>). The configuration is a Python
  \<^verbatim>\<open>dict\<close> from strings to strings: \<^verbatim>\<open>config['k']\<close> raises \<^verbatim>\<open>KeyError\<close> on a
  missing key, \<^verbatim>\<open>config.get('k')\<close> returns \<^verbatim>\<open>None\<close>.
\<close>

type_synonym config = "string \<rightharpoonup> string"

text \<open>
  The two exceptions the composition code can raise by itself: a missing dictionary key,
  and a local variable read before it was assigned.
\<close>

datatype error = KeyError string | UnboundLocalError string

definition bind_res :: "error + 'a \<Rightarrow> ('a \<Rightarrow> error + 'b) \<Rightarrow> error + 'b" where
  "bind_res m f = (case m of Inl e \<Rightarrow> Inl e | Inr x \<Rightarrow> f x)"

text \<open>\<^verbatim>\<open>config['k']\<close>.\<close>

definition getitem :: "config \<Rightarrow> string \<Rightarrow> error + string" where
  "getitem config k = (case config k of None \<Rightarrow> Inl (KeyError k) | Some v \<Rightarrow> Inr v)"

text \<open>
  An f-string is a sequence of literal pieces, \<^verbatim>\<open>{config['k']}\<close> pieces and
  \<^verbatim>\<open>{variable}\<close> pieces, evaluated from left to right: the first missing key raises.
\<close>

datatype piece = Lit string | Key string | Val string

fun fstr :: "config \<Rightarrow> piece list \<Rightarrow> error + string" where
  "fstr config [] = Inr []"
| "fstr config (Lit s # ps) = bind_res (fstr config ps) (\<lambda>r. Inr (s @ r))"
| "fstr config (Val s # ps) = bind_res (fstr config ps) (\<lambda>r. Inr (s @ r))"
| "fstr config (Key k # ps) =
     bind_res (getitem config k) (\<lambda>v. bind_res (fstr config ps) (\<lambda>r. Inr (v @ r)))"

text \<open>
  The prefix \<^verbatim>\<open>{config['resource_prefix']}-{config['service_name']}-{config['app_env']}-{config['app_name']}\<close>
  that every resource name of the source starts with.
\<close>

definition name_prefix :: "piece list" where
  "name_prefix = [Key ''resource_prefix'', Lit ''-'', Key ''service_name'', Lit ''-'',
                  Key ''app_env'', Lit ''-'', Key ''app_name'']"

text \<open>
  \<^verbatim>\<open>s.split(sep)\<close> for a one-character separator: the pieces between the separators,
  never the empty list (\<^verbatim>\<open>"".split(",") == [""]\<close>).
\<close>

fun split_on :: "char \<Rightarrow> string \<Rightarrow> string list" where
  "split_on sep [] = [[]]"
| "split_on sep (c # cs) =
     (if c = sep then [] # split_on sep cs
      else (c # hd (split_on sep cs)) # tl (split_on sep cs))"

text \<open>A \<^verbatim>\<open>for\<close> loop whose body may raise: the first exception ends the loop.\<close>

fun for_each :: "('a \<Rightarrow> error + 'b) \<Rightarrow> 'a list \<Rightarrow> error + 'b list" where
  "for_each f [] = Inr []"
| "for_each f (x # xs) =
     bind_res (f x) (\<lambda>y. bind_res (for_each f xs) (\<lambda>ys. Inr (y # ys)))"

section \<open>The stack's environment and the handles of its resources\<close>

text \<open>
  \<^verbatim>\<open>self.account\<close> and \<^verbatim>\<open>self.region\<close> of the stack (the \<^verbatim>\<open>env\<close> argument of
  its constructor), and the answer of the provider's VPC lookup: the CIDR block of the
  VPC with a given identifier.
\<close>

record stack_env =
  account :: string
  region :: string
  lookup_cidr :: "string \<Rightarrow> string"

text \<open>
  An attribute of a resource that is only known at deployment (a role's ARN, a bucket's
  name, a log group's ARN, a security group's id) is a token naming the construct and
  the attribute; it can be spliced into strings like any other string.
\<close>

definition token :: "string \<Rightarrow> string \<Rightarrow> string" where
  "token construct_id attr = ''${Token['' @ construct_id @ ''.'' @ attr @ '']}''"

section \<open>Resource declarations\<close>

datatype duration = Days nat

datatype block_public_access = BLOCK_ALL | BLOCK_ACLS

datatype bucket_encryption = UNENCRYPTED | S3_MANAGED | KMS_MANAGED | KMS

datatype object_ownership = BUCKET_OWNER_ENFORCED | BUCKET_OWNER_PREFERRED | OBJECT_WRITER

record lifecycle_rule =
  lr_enabled :: bool
  lr_id :: string
  lr_noncurrent_version_expiration :: duration
  lr_noncurrent_versions_to_retain :: nat

record bucket =
  bk_id :: string
  bk_bucket_name :: string
  bk_block_public_access :: block_public_access
  bk_encryption :: bucket_encryption
  bk_minimum_tls_version :: string
  bk_object_ownership :: object_ownership
  bk_object_lock_enabled :: bool
  bk_enforce_ssl :: bool
  bk_versioned :: bool
  bk_lifecycle_rules :: "lifecycle_rule list"

record vpc =
  vpc_construct_id :: string
  vpc_id :: string
  vpc_cidr_block :: string

record prefix_list =
  pl_construct_id :: string
  pl_prefix_list_id :: string

datatype peer = AnyIpv4 | Ipv4 string | PrefixListPeer string

datatype port = AllTraffic | Tcp nat

record security_group =
  sg_id :: string
  sg_security_group_name :: string
  sg_description :: string
  sg_allow_all_outbound :: bool
  sg_vpc :: vpc
  sg_egress_rules :: "(peer \<times> port) list"
  sg_ingress_rules :: "(peer \<times> port) list"

datatype effect = ALLOW | DENY

record policy_statement =
  ps_effect :: effect
  ps_actions :: "string list"
  ps_resources :: "string list"

record role =
  role_id :: string
  role_assumed_by :: string
  role_name :: string
  role_managed_policies :: "string list"
  role_policy :: "policy_statement list"

datatype retention_days = ONE_WEEK | ONE_MONTH | ONE_YEAR

datatype removal_policy = DESTROY | RETAIN

record log_group =
  lg_id :: string
  lg_log_group_name :: string
  lg_retention :: retention_days
  lg_removal_policy :: removal_policy

text \<open>
  A fault-injection experiment template. Python dictionaries written as literals are
  association lists in the order written; a keyword argument the source leaves out is
  \<open>None\<close>.
\<close>

record experiment_target =
  tg_resource_type :: string
  tg_resource_arns :: "string list option"
  tg_resource_tags :: "(string \<times> string) list option"
  tg_selection_mode :: string
  tg_parameters :: "(string \<times> string) list option"

record experiment_action =
  ac_action_id :: string
  ac_description :: "string option"
  ac_parameters :: "(string \<times> string) list"
  ac_targets :: "(string \<times> string) list"

record experiment_options =
  eo_account_targeting :: string
  eo_empty_target_resolution_mode :: string

record log_configuration =
  lc_cloud_watch_logs_configuration :: "(string \<times> string) list"
  lc_log_schema_version :: nat

record experiment_template =
  et_id :: string
  et_description :: string
  et_role_arn :: string
  et_targets :: "(string \<times> experiment_target) list"
  et_actions :: "(string \<times> experiment_action) list"
  et_experiment_options :: experiment_options
  et_log_configuration :: log_configuration
  et_stop_conditions :: "(string \<times> string) list list"
  et_tags :: "(string \<times> string) list"

record canary =
  cn_id :: string
  cn_name :: string
  cn_runtime_version :: string
  cn_artifact_s3_location :: string
  cn_execution_role_arn :: string
  cn_code_handler :: string
  cn_code_script :: string
  cn_active_tracing :: bool
  cn_environment_variables :: "(string \<times> string) list"
  cn_schedule_expression :: string
  cn_vpc_id :: string
  cn_subnet_ids :: "string list"
  cn_security_group_ids :: "string list"
  cn_success_retention_period :: nat
  cn_failure_retention_period :: nat
  cn_start_canary_after_creation :: bool

text \<open>
  What a stack holds: the constructs its composers created, in the order of creation.
  The provider's toolkit is an external collaborator; creating a construct is modelled
  as recording its declaration.
\<close>

datatype construct =
    Bucket bucket
  | Vpc vpc
  | LogGroup log_group
  | Role role
  | ExperimentTemplate experiment_template
  | SecurityGroup security_group
  | PrefixList prefix_list
  | Canary canary

text \<open>
  Modelled from the spec: the class \<^verbatim>\<open>ApplicationConfig\<close> (\<^verbatim>\<open>util/app_config.py\<close>) is not
  among the sources; only its four getters are called. The spec describes a descriptor
  as an ordered list of (name, URL) pairs, a subnet identifier and a canary-name suffix,
  so a descriptor is the record of what the four getters return.
\<close>

record application_config =
  get_app_names :: "string list"
  get_app_urls :: "string list"
  get_subnet_id :: string
  get_canary_name :: string

section \<open>The composers of \<^verbatim>\<open>cloudinfra.py\<close>\<close>

subsection \<open>Security group of the canaries\<close>

text \<open>
  \<^verbatim>\<open>ec2.SecurityGroup(...)\<close>: with \<^verbatim>\<open>allow_all_outbound\<close> the group starts with the
  rule that allows all outbound traffic, without it with no egress rule at all (the
  source's comment at the call says so). \<^verbatim>\<open>add_egress_rule\<close> adds one rule.
\<close>

definition new_security_group ::
  "string \<Rightarrow> string \<Rightarrow> string \<Rightarrow> bool \<Rightarrow> vpc \<Rightarrow> security_group" where
  "new_security_group cid name descr allow_all v =
     \<lparr>sg_id = cid, sg_security_group_name = name, sg_description = descr,
      sg_allow_all_outbound = allow_all, sg_vpc = v,
      sg_egress_rules = (if allow_all then [(AnyIpv4, AllTraffic)] else []),
      sg_ingress_rules = []\<rparr>"

definition add_egress_rule :: "security_group \<Rightarrow> peer \<Rightarrow> port \<Rightarrow> security_group" where
  "add_egress_rule sg p q = sg\<lparr>sg_egress_rules := sg_egress_rules sg @ [(p, q)]\<rparr>"

definition from_prefix_list_id :: "string \<Rightarrow> string \<Rightarrow> prefix_list" where
  "from_prefix_list_id cid plid = \<lparr>pl_construct_id = cid, pl_prefix_list_id = plid\<rparr>"

text \<open>
  \<^verbatim>\<open>create_canary_security_group\<close> returns the group; the imported prefix list is the
  second construct it adds to the stack.
\<close>

definition create_canary_security_group ::
  "config \<Rightarrow> vpc \<Rightarrow> error + security_group \<times> prefix_list" where
  "create_canary_security_group config v =
     bind_res (fstr config (name_prefix @ [Lit ''-canary-sg-'', Key ''resource_suffix''])) (\<lambda>cid.
     bind_res (fstr config (name_prefix @ [Lit ''-canary-sg-'', Key ''resource_suffix''])) (\<lambda>name.
     let sg = new_security_group cid name ''Allow the communication from Canary'' False v;
         sg = add_egress_rule sg (Ipv4 (vpc_cidr_block v)) (Tcp 443)
     in
     bind_res (getitem config ''s3_prefix_list'') (\<lambda>plid.
     let s3_prefix_list = from_prefix_list_id ''S3PrefixList'' plid;
         sg = add_egress_rule sg (PrefixListPeer (pl_prefix_list_id s3_prefix_list)) (Tcp 443)
     in Inr (sg, s3_prefix_list))))"

subsection \<open>Artifact store\<close>

definition create_artifact_store :: "config \<Rightarrow> error + bucket" where
  "create_artifact_store config =
     bind_res (fstr config (name_prefix @ [Lit ''-canary-s3-'', Key ''resource_suffix''])) (\<lambda>cid.
     bind_res (fstr config (name_prefix @ [Lit ''-canary-s3-'', Key ''workload_account'',
                                          Lit ''-'', Key ''resource_suffix''])) (\<lambda>name.
     bind_res (fstr config (name_prefix @ [Lit ''-s3-lifecycle-'', Key ''resource_suffix''])) (\<lambda>rule_id.
     Inr \<lparr>bk_id = cid,
          bk_bucket_name = name,
          bk_block_public_access = BLOCK_ALL,
          bk_encryption = S3_MANAGED,
          bk_minimum_tls_version = ''1.2'',
          bk_object_ownership = BUCKET_OWNER_ENFORCED,
          bk_object_lock_enabled = False,
          bk_enforce_ssl = True,
          bk_versioned = True,
          bk_lifecycle_rules =
            [\<lparr>lr_enabled = True,
              lr_id = rule_id,
              lr_noncurrent_version_expiration = Days 7,
              lr_noncurrent_versions_to_retain = 1\<rparr>]\<rparr>)))"

definition bucket_name :: "bucket \<Rightarrow> string" where
  "bucket_name b = token (bk_id b) ''Ref''"

subsection \<open>Role of the canaries\<close>

definition role_arn :: "role \<Rightarrow> string" where
  "role_arn r = token (role_id r) ''Arn''"

definition create_canary_role :: "stack_env \<Rightarrow> config \<Rightarrow> string \<Rightarrow> error + role" where
  "create_canary_role env config bucket_nm =
     bind_res (fstr config (name_prefix @ [Lit ''-canary-role-'', Key ''resource_suffix''])) (\<lambda>cid.
     bind_res (fstr config (name_prefix @ [Lit ''-canary-role-'', Key ''resource_suffix''])) (\<lambda>name.
     Inr \<lparr>role_id = cid,
          role_assumed_by = ''lambda.amazonaws.com'',
          role_name = name,
          role_managed_policies = [''CloudWatchSyntheticsFullAccess'', ''AmazonEC2FullAccess''],
          role_policy =
            [\<lparr>ps_effect = ALLOW,
              ps_actions = [''s3:PutObject'', ''s3:GetObject''],
              ps_resources = [''arn:aws:s3:::'' @ bucket_nm @ ''/*'']\<rparr>,
             \<lparr>ps_effect = ALLOW,
              ps_actions = [''s3:GetBucketLocation''],
              ps_resources = [''arn:aws:s3:::'' @ bucket_nm]\<rparr>,
             \<lparr>ps_effect = ALLOW,
              ps_actions = [''logs:CreateLogStream'', ''logs:PutLogEvents'', ''logs:CreateLogGroup''],
              ps_resources = [''arn:aws:logs:*:'' @ account env @ '':log-group:/aws/lambda/*'']\<rparr>,
             \<lparr>ps_effect = ALLOW,
              ps_actions = [''s3:ListAllMyBuckets'', ''xray:PutTraceSegments'',
                            ''cloudwatch:PutMetricData'', ''ec2:CreateNetworkInterface'',
                            ''ec2:DescribeNetworkInterfaces'', ''ec2:DeleteNetworkInterface''],
              ps_resources = [''*'']\<rparr>]\<rparr>))"

subsection \<open>The canary and its script\<close>

text \<open>The lines of the probe script that \<^verbatim>\<open>canary_script_data\<close> returns.\<close>

definition canary_script_lines :: "string list" where
  \<open>canary_script_lines =
    [''import json'',
     ''import os'',
     ''import http.client'',
     ''from selenium.webdriver.common.by import By'',
     ''import urllib.parse'',
     ''from aws_synthetics.selenium import synthetics_webdriver as syn_webdriver'',
     ''from aws_synthetics.common import synthetics_logger as logger'',
     '''',
     ''def verify_request(method, url, post_data=None, headers={}):'',
     ''    parsed_url = urllib.parse.urlparse(url)'',
     ''    user_agent = str(syn_webdriver.get_canary_user_agent_string())'',
     ''    if "User-Agent" in headers:'',
     ''        headers["User-Agent"] = f"{user_agent} {headers['User-Agent']}"'',
     ''    else:'',
     ''        headers["User-Agent"] = user_agent'',
     '''',
     ''    logger.info(f"Making request with Method: '{method}' URL: {url}: Data: {json.dumps(post_data)} Headers: {json.dumps(headers)}")'',
     '''',
     ''    if parsed_url.scheme == "https":'',
     ''        conn = http.client.HTTPSConnection(parsed_url.hostname, parsed_url.port)'',
     ''    else:'',
     ''        conn = http.client.HTTPConnection(parsed_url.hostname, parsed_url.port)'',
     '''',
     ''    conn.request(method, url, post_data, headers)'',
     ''    response = conn.getresponse()'',
     ''    logger.info(f"Status Code: {response.status}")'',
     ''    logger.info(f"Response Headers: {json.dumps(response.headers.as_string())}")'',
     '''',
     ''    if not response.status or response.status < 200 or response.status > 299:'',
     ''        try:'',
     ''            logger.error(f"Response: {response.read().decode()}")'',
     ''        finally:'',
     ''            if response.reason:'',
     ''                conn.close()'',
     ''                raise Exception(f"Failed: {response.reason}")'',
     ''            else:'',
     ''                conn.close()'',
     ''                raise Exception(f"Failed with status code: {response.status}")'',
     '''',
     ''    logger.info(f"Response: {response.read().decode()}")'',
     ''    logger.info("HTTP request successfully executed.")'',
     ''    conn.close()'',
     [CHR 0x09],
     ''def handler(event, context):'',
     ''    '',
     ''    url = os.environ['TARGET_URL']  # Read the environment variable for the URL'',
     ''    method = 'GET'' @ [CHR 0x27],
     ''    postData = ""'',
     ''    headers1 = {}'',
     ''    '',
     ''    verify_request(method, url, None, headers1)'',
     ''    logger.info("Canary successfully executed.")'']\<close>

definition canary_script_data :: "config \<Rightarrow> string" where
  "canary_script_data config = concat (map (\<lambda>l. l @ [CHR 0x0A]) canary_script_lines)"

definition create_canary ::
  "stack_env \<Rightarrow> config \<Rightarrow> vpc \<Rightarrow> string list \<Rightarrow> string list \<Rightarrow> role \<Rightarrow> string \<Rightarrow> string \<Rightarrow>
   string \<Rightarrow> string \<Rightarrow> error + canary" where
  "create_canary env config v subnet_ids security_group_id canary_role target_url
       canary_script app_name bucket_nm =
     bind_res (fstr config (name_prefix @ [Lit ''-canary-'', Val app_name, Lit ''-'',
                                          Key ''resource_suffix''])) (\<lambda>cid.
     bind_res (fstr config (name_prefix @ [Lit ''-canary-'', Val app_name, Lit ''-'',
                                          Key ''resource_suffix''])) (\<lambda>name.
     bind_res (fstr config ([Lit ''s3://'', Val bucket_nm, Lit ''/canary/'', Val (region env),
                             Lit ''/''] @ name_prefix @
                            [Lit ''-canary-'', Val app_name, Lit ''-'',
                             Key ''resource_suffix''])) (\<lambda>location.
     Inr \<lparr>cn_id = cid,
          cn_name = name,
          cn_runtime_version = ''syn-python-selenium-5.0'',
          cn_artifact_s3_location = location,
          cn_execution_role_arn = role_arn canary_role,
          cn_code_handler = ''index.handler'',
          cn_code_script = canary_script,
          cn_active_tracing = False,
          cn_environment_variables = [(''TARGET_URL'', target_url)],
          cn_schedule_expression = ''rate(1 minute)'',
          cn_vpc_id = vpc_id v,
          cn_subnet_ids = subnet_ids,
          cn_security_group_ids = security_group_id,
          cn_success_retention_period = 30,
          cn_failure_retention_period = 30,
          cn_start_canary_after_creation = True\<rparr>)))"

subsection \<open>Role of the fault-injection service, VPC lookup, log group\<close>

definition create_fis_role :: "stack_env \<Rightarrow> config \<Rightarrow> error + role" where
  "create_fis_role env config =
     bind_res (fstr config (name_prefix @ [Lit ''-exec-role-'', Key ''resource_suffix''])) (\<lambda>cid.
     bind_res (fstr config (name_prefix @ [Lit ''-exec-role-'', Key ''resource_suffix''])) (\<lambda>name.
     bind_res (fstr config [Lit ''arn:aws:fis:*:'', Key ''workload_account'',
                            Lit '':experiment-template/*'']) (\<lambda>r1.
     bind_res (fstr config [Lit ''arn:aws:fis:*:'', Key ''workload_account'',
                            Lit '':safety-lever/*'']) (\<lambda>r2.
     bind_res (fstr config [Lit ''arn:aws:fis:*:'', Key ''workload_account'',
                            Lit '':action/*'']) (\<lambda>r3.
     bind_res (fstr config [Lit ''arn:aws:fis:*:'', Key ''workload_account'',
                            Lit '':experiment/*'']) (\<lambda>r4.
     bind_res (fstr config [Lit ''arn:aws:iam::'', Key ''workload_account'',
                            Lit '':role/*'']) (\<lambda>r5.
     Inr \<lparr>role_id = cid,
          role_assumed_by = ''fis.amazonaws.com'',
          role_name = name,
          role_managed_policies =
            [''service-role/AWSFaultInjectionSimulatorNetworkAccess'',
             ''service-role/AWSFaultInjectionSimulatorRDSAccess'',
             ''service-role/AWSFaultInjectionSimulatorECSAccess'',
             ''service-role/AWSFaultInjectionSimulatorSSMAccess''],
          role_policy =
            [\<lparr>ps_effect = ALLOW,
              ps_actions = [''fis:*''],
              ps_resources = [r1, r2, r3, r4]\<rparr>,
             \<lparr>ps_effect = ALLOW,
              ps_actions =
                [''fis:ListExperimentTemplates'', ''fis:ListActions'',
                 ''fis:ListTargetResourceTypes'', ''fis:ListExperiments'',
                 ''fis:GetTargetResourceType'', ''logs:CreateLogDelivery'',
                 ''logs:UpdateLogDelivery'', ''logs:GetLogDelivery'',
                 ''logs:ListLogDeliveries'', ''ec2:CreateNetworkInterface'',
                 ''ec2:DeleteNetworkInterfacePermission'', ''ec2:DescribeNetworkInterfaces'',
                 ''ec2:CreateNetworkInterfacePermission'', ''ec2:DescribeVpcs'',
                 ''ec2:CreateTags'', ''ec2:DeleteNetworkInterface'', ''ec2:DescribeSubnets''],
              ps_resources = [''*'']\<rparr>,
             \<lparr>ps_effect = ALLOW,
              ps_actions = [''iam:CreateServiceLinkedRole''],
              ps_resources = [r5]\<rparr>,
             \<lparr>ps_effect = ALLOW,
              ps_actions = [''logs:CreateLogStream'', ''logs:PutLogEvents''],
              ps_resources = [''arn:aws:logs:*:*:log-group:/sw/fis/*:*'']\<rparr>,
             \<lparr>ps_effect = ALLOW,
              ps_actions = [''elasticache:InterruptClusterAzPower'', ''elasticache:TestFailover'',
                            ''elasticache:FailoverGlobalReplicationGroup''],
              ps_resources =
                [''arn:aws:elasticache:*:'' @ account env @ '':replicationgroup:*'',
                 ''arn:aws:elasticache::'' @ account env @ '':globalreplicationgroup:*'']\<rparr>]\<rparr>)))))))"

definition lookup_vpc :: "stack_env \<Rightarrow> config \<Rightarrow> error + vpc" where
  "lookup_vpc env config =
     bind_res (fstr config (name_prefix @ [Lit ''-vpc-'', Key ''resource_suffix''])) (\<lambda>cid.
     bind_res (fstr config [Key ''vpc_id'']) (\<lambda>vid.
     Inr \<lparr>vpc_construct_id = cid, vpc_id = vid, vpc_cidr_block = lookup_cidr env vid\<rparr>))"

definition create_log_group :: "config \<Rightarrow> error + log_group" where
  "create_log_group config =
     bind_res (fstr config (name_prefix @ [Lit ''-fis-logs-'', Key ''resource_suffix''])) (\<lambda>cid.
     bind_res (fstr config ([Lit ''/sw/fis/''] @ name_prefix @
                            [Lit ''-fis-logs-'', Key ''resource_suffix''])) (\<lambda>name.
     Inr \<lparr>lg_id = cid, lg_log_group_name = name, lg_retention = ONE_MONTH,
          lg_removal_policy = DESTROY\<rparr>))"

definition log_group_arn :: "log_group \<Rightarrow> string" where
  "log_group_arn lg = token (lg_id lg) ''Arn''"

subsection \<open>Fault-injection experiment templates\<close>

text \<open>
  \<^verbatim>\<open>create_fis_network_subnet_experiment\<close>. The list \<^verbatim>\<open>db_arns\<close> is built (and can
  raise) but the template does not use it: the database target selects by tag.
\<close>

definition create_fis_network_subnet_experiment ::
  "stack_env \<Rightarrow> config \<Rightarrow> string \<Rightarrow> string \<Rightarrow> role \<Rightarrow> log_group \<Rightarrow> string \<Rightarrow> string \<Rightarrow>
   error + experiment_template" where
  "create_fis_network_subnet_experiment env config subnet_list test_name rl lg az_name db_app_list =
     bind_res (for_each (\<lambda>db_app_name.
         fstr config [Lit ''arn:aws:rds:'', Val (region env), Lit '':'', Val (account env),
                      Lit '':cluster:'', Key ''resource_prefix'', Lit ''-'', Key ''service_name'',
                      Lit ''-'', Key ''app_env'', Lit ''-'', Val db_app_name, Lit ''-'',
                      Key ''resource_suffix''])
       (split_on CHR '','' db_app_list)) (\<lambda>db_arns.
     let subnet_arns =
           map (\<lambda>subnet. ''arn:aws:ec2:'' @ region env @ '':'' @ account env @ '':subnet/'' @ subnet)
             (split_on CHR '','' subnet_list)
     in
     bind_res (fstr config (name_prefix @ [Lit ''-azfailure-experiment-'', Val test_name, Lit ''-'',
                                          Key ''resource_suffix''])) (\<lambda>cid.
     bind_res (fstr config (name_prefix @ [Lit ''-azfailure-experiment-'', Val test_name, Lit ''-'',
                                          Key ''resource_suffix''])) (\<lambda>tag_name.
     bind_res (fstr config [Key ''app_env'']) (\<lambda>tag_env.
     Inr \<lparr>et_id = cid,
          et_description = ''AZ Power Failure Simulation in '' @ test_name,
          et_role_arn = role_arn rl,
          et_targets =
            [(''SubnetDown'',
              \<lparr>tg_resource_type = ''aws:ec2:subnet'',
               tg_resource_arns = Some subnet_arns,
               tg_resource_tags = None,
               tg_selection_mode = ''ALL'',
               tg_parameters = Some []\<rparr>),
             (''RDSFailover'',
              \<lparr>tg_resource_type = ''aws:rds:cluster'',
               tg_resource_arns = None,
               tg_resource_tags = Some [(''sw:product'', ''mra'')],
               tg_selection_mode = ''ALL'',
               tg_parameters = Some [(''writerAvailabilityZoneIdentifiers'', az_name)]\<rparr>),
             (''ElastiCacheCluster'',
              \<lparr>tg_resource_type = ''aws:elasticache:replicationgroup'',
               tg_resource_arns = None,
               tg_resource_tags = Some [(''sw:product'', ''mra'')],
               tg_selection_mode = ''ALL'',
               tg_parameters = Some [(''availabilityZoneIdentifier'', az_name)]\<rparr>)],
          et_actions =
            [(''DisruptNetworkConnectivity'',
              \<lparr>ac_action_id = ''aws:network:disrupt-connectivity'',
               ac_description = Some (''Disrupt network connectivity for subnets in '' @ test_name),
               ac_parameters = [(''duration'', ''PT15M''), (''scope'', ''all'')],
               ac_targets = [(''Subnets'', ''SubnetDown'')]\<rparr>),
             (''RDSFailoverAction'',
              \<lparr>ac_action_id = ''aws:rds:failover-db-cluster'',
               ac_description = Some ''Aurora Serverless RDS Failover DB'',
               ac_parameters = [],
               ac_targets = [(''Clusters'', ''RDSFailover'')]\<rparr>),
             (''PauseElastiCache'',
              \<lparr>ac_action_id = ''aws:elasticache:replicationgroup-interrupt-az-power'',
               ac_description = None,
               ac_parameters = [(''duration'', ''PT15M'')],
               ac_targets = [(''ReplicationGroups'', ''ElastiCacheCluster'')]\<rparr>),
             (''FISWait'',
              \<lparr>ac_action_id = ''aws:fis:wait'',
               ac_description = None,
               ac_parameters = [(''duration'', ''PT15M'')],
               ac_targets = []\<rparr>)],
          et_experiment_options =
            \<lparr>eo_account_targeting = ''single-account'',
             eo_empty_target_resolution_mode = ''fail''\<rparr>,
          et_log_configuration =
            \<lparr>lc_cloud_watch_logs_configuration = [(''LogGroupArn'', log_group_arn lg)],
             lc_log_schema_version = 2\<rparr>,
          et_stop_conditions = [[(''source'', ''none'')]],
          et_tags = [(''Name'', tag_name), (''Environment'', tag_env)]\<rparr>))))"

definition create_fis_ecs_cluster_drain_experiment ::
  "stack_env \<Rightarrow> config \<Rightarrow> role \<Rightarrow> log_group \<Rightarrow> string \<Rightarrow> error + experiment_template" where
  "create_fis_ecs_cluster_drain_experiment env config rl lg percent =
     bind_res (fstr config (name_prefix @ [Lit ''-ecs-drain-p'', Val percent, Lit ''-experiment-'',
                                          Key ''resource_suffix''])) (\<lambda>cid.
     bind_res (fstr config [Lit ''arn:aws:ecs:'', Val (region env), Lit '':'', Val (account env),
                            Lit '':cluster/'', Key ''resource_prefix'', Lit ''-'',
                            Key ''service_name'', Lit ''-'', Key ''app_env'',
                            Lit ''-ecs-cluster-infra-'', Key ''resource_suffix'']) (\<lambda>cluster_arn.
     bind_res (fstr config (name_prefix @ [Lit ''-ecs-drain-p'', Val percent, Lit ''-experiment-'',
                                          Key ''resource_suffix''])) (\<lambda>tag_name.
     bind_res (fstr config [Key ''app_env'']) (\<lambda>tag_env.
     Inr \<lparr>et_id = cid,
          et_description = ''Drain ECS cluster container instances in percent '' @ percent,
          et_role_arn = role_arn rl,
          et_targets =
            [(''ECSClusterDrain'',
              \<lparr>tg_resource_type = ''aws:ecs:cluster'',
               tg_resource_arns = Some [cluster_arn],
               tg_resource_tags = None,
               tg_selection_mode = ''ALL'',
               tg_parameters = None\<rparr>)],
          et_actions =
            [(''ECSDrain'',
              \<lparr>ac_action_id = ''aws:ecs:drain-container-instances'',
               ac_description =
                 Some (''Drain ECS cluster container instances in percent '' @ percent),
               ac_parameters = [(''drainagePercentage'', percent), (''duration'', ''PT15M'')],
               ac_targets = [(''Clusters'', ''ECSClusterDrain'')]\<rparr>)],
          et_experiment_options =
            \<lparr>eo_account_targeting = ''single-account'',
             eo_empty_target_resolution_mode = ''fail''\<rparr>,
          et_log_configuration =
            \<lparr>lc_cloud_watch_logs_configuration = [(''LogGroupArn'', log_group_arn lg)],
             lc_log_schema_version = 2\<rparr>,
          et_stop_conditions = [[(''source'', ''none'')]],
          et_tags = [(''Name'', tag_name), (''Environment'', tag_env)]\<rparr>))))"

definition create_fis_rds_failover_experiment ::
  "stack_env \<Rightarrow> config \<Rightarrow> role \<Rightarrow> log_group \<Rightarrow> string \<Rightarrow> error + experiment_template" where
  "create_fis_rds_failover_experiment env config rl lg db_app_name =
     bind_res (fstr config (name_prefix @ [Lit ''-rdsfailover-'', Val db_app_name,
                                          Lit ''-experiment-'', Key ''resource_suffix''])) (\<lambda>cid.
     bind_res (fstr config [Lit ''arn:aws:rds:'', Val (region env), Lit '':'', Val (account env),
                            Lit '':cluster:'', Key ''resource_prefix'', Lit ''-'',
                            Key ''service_name'', Lit ''-'', Key ''app_env'', Lit ''-'',
                            Val db_app_name, Lit ''-'', Key ''resource_suffix'']) (\<lambda>cluster_arn.
     bind_res (fstr config (name_prefix @ [Lit ''-rdsfailover-'', Val db_app_name,
                                          Lit ''-experiment-'', Key ''resource_suffix''])) (\<lambda>tag_name.
     bind_res (fstr config [Key ''app_env'']) (\<lambda>tag_env.
     Inr \<lparr>et_id = cid,
          et_description = ''Aurora Serverless RDS Failover DB '' @ db_app_name,
          et_role_arn = role_arn rl,
          et_targets =
            [(''RDSFailover'',
              \<lparr>tg_resource_type = ''aws:rds:cluster'',
               tg_resource_arns = Some [cluster_arn],
               tg_resource_tags = None,
               tg_selection_mode = ''ALL'',
               tg_parameters = None\<rparr>)],
          et_actions =
            [(''RDSFailoverAction'',
              \<lparr>ac_action_id = ''aws:rds:failover-db-cluster'',
               ac_description = Some (''Aurora Serverless RDS Failover DB '' @ db_app_name),
               ac_parameters = [],
               ac_targets = [(''Clusters'', ''RDSFailover'')]\<rparr>)],
          et_experiment_options =
            \<lparr>eo_account_targeting = ''single-account'',
             eo_empty_target_resolution_mode = ''fail''\<rparr>,
          et_log_configuration =
            \<lparr>lc_cloud_watch_logs_configuration = [(''LogGroupArn'', log_group_arn lg)],
             lc_log_schema_version = 2\<rparr>,
          et_stop_conditions = [[(''source'', ''none'')]],
          et_tags = [(''Name'', tag_name), (''Environment'', tag_env)]\<rparr>))))"

definition create_fis_ecs_task_stop_experiment ::
  "config \<Rightarrow> role \<Rightarrow> log_group \<Rightarrow> string \<Rightarrow> string \<Rightarrow> error + experiment_template" where
  "create_fis_ecs_task_stop_experiment config rl lg ecs_app_name percent =
     bind_res (fstr config (name_prefix @ [Lit ''-ecs-taskstop-'', Val ecs_app_name, Lit ''-p'',
                                          Val percent, Lit ''-experiment-'',
                                          Key ''resource_suffix''])) (\<lambda>cid.
     bind_res (fstr config [Key ''resource_prefix'', Lit ''-mra-'', Key ''app_env'',
                            Lit ''-ecs-cluster-fra-'', Key ''resource_suffix'']) (\<lambda>cluster.
     bind_res (fstr config [Key ''resource_prefix'', Lit ''-mra-'', Key ''app_env'',
                            Lit ''-ecs-service-fra-'', Key ''resource_suffix'']) (\<lambda>service.
     bind_res (fstr config (name_prefix @ [Lit ''-ecs-taskstop-'', Val ecs_app_name, Lit ''-p'',
                                          Val percent, Lit ''-experiment-'',
                                          Key ''resource_suffix''])) (\<lambda>tag_name.
     bind_res (fstr config [Key ''app_env'']) (\<lambda>tag_env.
     Inr \<lparr>et_id = cid,
          et_description =
            ''Stop ECS Task for service app '' @ ecs_app_name @ '' with percent '' @ percent,
          et_role_arn = role_arn rl,
          et_targets =
            [(''ECSTaskStop'',
              \<lparr>tg_resource_type = ''aws:ecs:task'',
               tg_resource_arns = None,
               tg_resource_tags = None,
               tg_selection_mode = ''PERCENT('' @ percent @ '')'',
               tg_parameters = Some [(''cluster'', cluster), (''service'', service)]\<rparr>)],
          et_actions =
            [(''ECSTaskStopAction'',
              \<lparr>ac_action_id = ''aws:ecs:stop-task'',
               ac_description =
                 Some (''ECS Task Stop for service app '' @ ecs_app_name @ '' with percent '' @ percent),
               ac_parameters = [],
               ac_targets = [(''Tasks'', ''ECSTaskStop'')]\<rparr>)],
          et_experiment_options =
            \<lparr>eo_account_targeting = ''single-account'',
             eo_empty_target_resolution_mode = ''fail''\<rparr>,
          et_log_configuration =
            \<lparr>lc_cloud_watch_logs_configuration = [(''LogGroupArn'', log_group_arn lg)],
             lc_log_schema_version = 2\<rparr>,
          et_stop_conditions = [[(''source'', ''none'')]],
          et_tags = [(''Name'', tag_name), (''Environment'', tag_env)]\<rparr>)))))"

definition create_fis_ecs_task_cpustress_experiment ::
  "config \<Rightarrow> role \<Rightarrow> log_group \<Rightarrow> string \<Rightarrow> string \<Rightarrow> error + experiment_template" where
  "create_fis_ecs_task_cpustress_experiment config rl lg ecs_app_name percent =
     bind_res (fstr config (name_prefix @ [Lit ''-ecs-taskcpustress-'', Val ecs_app_name, Lit ''-p'',
                                          Val percent, Lit ''-experiment-'',
                                          Key ''resource_suffix''])) (\<lambda>cid.
     bind_res (fstr config [Key ''resource_prefix'', Lit ''-mra-'', Key ''app_env'',
                            Lit ''-ecs-cluster-fra-'', Key ''resource_suffix'']) (\<lambda>cluster.
     bind_res (fstr config [Key ''resource_prefix'', Lit ''-mra-'', Key ''app_env'',
                            Lit ''-ecs-service-fra-'', Key ''resource_suffix'']) (\<lambda>service.
     bind_res (fstr config (name_prefix @ [Lit ''-ecs-taskcpustress-'', Val ecs_app_name, Lit ''-p'',
                                          Val percent, Lit ''-experiment-'',
                                          Key ''resource_suffix''])) (\<lambda>tag_name.
     bind_res (fstr config [Key ''app_env'']) (\<lambda>tag_env.
     Inr \<lparr>et_id = cid,
          et_description =
            ''CPU Stress ECS Task for service app '' @ ecs_app_name @ '' with percent '' @ percent,
          et_role_arn = role_arn rl,
          et_targets =
            [(''ECSTaskCPUStress'',
              \<lparr>tg_resource_type = ''aws:ecs:task'',
               tg_resource_arns = None,
               tg_resource_tags = None,
               tg_selection_mode = ''PERCENT('' @ percent @ '')'',
               tg_parameters = Some [(''cluster'', cluster), (''service'', service)]\<rparr>)],
          et_actions =
            [(''ECSTaskCPUStressAction'',
              \<lparr>ac_action_id = ''aws:ecs:task-cpu-stress'',
               ac_description =
                 Some (''ECS Task CPU Stress for service app '' @ ecs_app_name @ '' with percent '' @ percent),
               ac_parameters = [(''duration'', ''PT15M''), (''installDependencies'', ''true''),
                  (''percent'', ''100''), (''workers'', ''0'')],
               ac_targets = [(''Tasks'', ''ECSTaskCPUStress'')]\<rparr>)],
          et_experiment_options =
            \<lparr>eo_account_targeting = ''single-account'',
             eo_empty_target_resolution_mode = ''fail''\<rparr>,
          et_log_configuration =
            \<lparr>lc_cloud_watch_logs_configuration = [(''LogGroupArn'', log_group_arn lg)],
             lc_log_schema_version = 2\<rparr>,
          et_stop_conditions = [[(''source'', ''none'')]],
          et_tags = [(''Name'', tag_name), (''Environment'', tag_env)]\<rparr>)))))"

definition create_fis_ecs_task_iostress_experiment ::
  "config \<Rightarrow> role \<Rightarrow> log_group \<Rightarrow> string \<Rightarrow> string \<Rightarrow> error + experiment_template" where
  "create_fis_ecs_task_iostress_experiment config rl lg ecs_app_name percent =
     bind_res (fstr config (name_prefix @ [Lit ''-ecs-taskiostress-'', Val ecs_app_name, Lit ''-p'',
                                          Val percent, Lit ''-experiment-'',
                                          Key ''resource_suffix''])) (\<lambda>cid.
     bind_res (fstr config [Key ''resource_prefix'', Lit ''-mra-'', Key ''app_env'',
                            Lit ''-ecs-cluster-fra-'', Key ''resource_suffix'']) (\<lambda>cluster.
     bind_res (fstr config [Key ''resource_prefix'', Lit ''-mra-'', Key ''app_env'',
                            Lit ''-ecs-service-fra-'', Key ''resource_suffix'']) (\<lambda>service.
     bind_res (fstr config (name_prefix @ [Lit ''-ecs-taskiostress-'', Val ecs_app_name, Lit ''-p'',
                                          Val percent, Lit ''-experiment-'',
                                          Key ''resource_suffix''])) (\<lambda>tag_name.
     bind_res (fstr config [Key ''app_env'']) (\<lambda>tag_env.
     Inr \<lparr>et_id = cid,
          et_description =
            ''IO Stress ECS Task for service app '' @ ecs_app_name @ '' with percent '' @ percent,
          et_role_arn = role_arn rl,
          et_targets =
            [(''ECSTaskIOStress'',
              \<lparr>tg_resource_type = ''aws:ecs:task'',
               tg_resource_arns = None,
               tg_resource_tags = None,
               tg_selection_mode = ''PERCENT('' @ percent @ '')'',
               tg_parameters = Some [(''cluster'', cluster), (''service'', service)]\<rparr>)],
          et_actions =
            [(''ECSTaskIOStressAction'',
              \<lparr>ac_action_id = ''aws:ecs:task-io-stress'',
               ac_description =
                 Some (''ECS Task IO Stress for service app '' @ ecs_app_name @ '' with percent '' @ percent),
               ac_parameters = [(''duration'', ''PT15M''), (''installDependencies'', ''true''),
                  (''percent'', ''80''), (''workers'', ''1'')],
               ac_targets = [(''Tasks'', ''ECSTaskIOStress'')]\<rparr>)],
          et_experiment_options =
            \<lparr>eo_account_targeting = ''single-account'',
             eo_empty_target_resolution_mode = ''fail''\<rparr>,
          et_log_configuration =
            \<lparr>lc_cloud_watch_logs_configuration = [(''LogGroupArn'', log_group_arn lg)],
             lc_log_schema_version = 2\<rparr>,
          et_stop_conditions = [[(''source'', ''none'')]],
          et_tags = [(''Name'', tag_name), (''Environment'', tag_env)]\<rparr>)))))"

section \<open>The stack: \<^verbatim>\<open>cloud_infra.__init__\<close>\<close>

text \<open>
  The gate of both \<^verbatim>\<open>if\<close> statements:
  \<^verbatim>\<open>config.get("deployment_region") == config.get("primary_region")\<close>.
\<close>

definition is_primary :: "config \<Rightarrow> bool" where
  "is_primary config = (config ''deployment_region'' = config ''primary_region'')"

definition security_group_id :: "security_group \<Rightarrow> string" where
  "security_group_id sg = token (sg_id sg) ''GroupId''"

text \<open>
  The body of the first \<^verbatim>\<open>if\<close>: the role of the fault-injection service, the two
  availability-zone experiments, one task-stop experiment per service and percentage,
  one failover experiment per database cluster. The loops over the task CPU-stress, task
  IO-stress and cluster-drain experiments are comments in the source, so they are not
  part of the body.
\<close>

definition fis_resources :: "stack_env \<Rightarrow> config \<Rightarrow> log_group \<Rightarrow> error + construct list" where
  "fis_resources env config lg =
     bind_res (create_fis_role env config) (\<lambda>fis_role.
     bind_res (getitem config ''subnet_az1_list'') (\<lambda>subnet_az1_list.
     bind_res (getitem config ''az1_name'') (\<lambda>az1_name.
     bind_res (getitem config ''db_clusters'') (\<lambda>db_clusters.
     bind_res (create_fis_network_subnet_experiment env config subnet_az1_list ''az1'' fis_role lg
                 az1_name db_clusters) (\<lambda>az1.
     bind_res (getitem config ''subnet_az2_list'') (\<lambda>subnet_az2_list.
     bind_res (getitem config ''az2_name'') (\<lambda>az2_name.
     bind_res (getitem config ''db_clusters'') (\<lambda>db_clusters.
     bind_res (create_fis_network_subnet_experiment env config subnet_az2_list ''az2'' fis_role lg
                 az2_name db_clusters) (\<lambda>az2.
     bind_res (getitem config ''ecs_services'') (\<lambda>ecs_services.
     bind_res (for_each (\<lambda>ecs_name.
                 bind_res (getitem config ''ecs_taks_percents'') (\<lambda>ecs_taks_percents.
                 for_each (\<lambda>percent_val.
                     create_fis_ecs_task_stop_experiment config fis_role lg ecs_name percent_val)
                   (split_on CHR '','' ecs_taks_percents)))
               (split_on CHR '','' ecs_services)) (\<lambda>ecs_stop.
     bind_res (getitem config ''db_clusters'') (\<lambda>db_clusters.
     bind_res (for_each (\<lambda>db_name.
                 create_fis_rds_failover_experiment env config fis_role lg db_name)
               (split_on CHR '','' db_clusters)) (\<lambda>rds.
     Inr (Role fis_role # ExperimentTemplate az1 # ExperimentTemplate az2 #
          map ExperimentTemplate (concat ecs_stop) @ map ExperimentTemplate rds))))))))))))))"

text \<open>
  The canaries of one application descriptor: one per pair of
  \<^verbatim>\<open>zip(app.get_app_names(), app.get_app_urls())\<close>. The local variable
  \<^verbatim>\<open>canary_role\<close> is \<open>None\<close> when no assignment to it was executed; reading it then
  raises \<^verbatim>\<open>UnboundLocalError\<close>.
\<close>

definition app_canaries ::
  "stack_env \<Rightarrow> config \<Rightarrow> vpc \<Rightarrow> security_group \<Rightarrow> role option \<Rightarrow> string \<Rightarrow> string \<Rightarrow>
   application_config \<Rightarrow> error + canary list" where
  "app_canaries env config v canary_sg canary_role canary_script bucket_nm app =
     for_each (\<lambda>(app_name, app_url).
         bind_res (case canary_role of
                     None \<Rightarrow> Inl (UnboundLocalError ''canary_role'')
                   | Some r \<Rightarrow> Inr r) (\<lambda>r.
         create_canary env config v [get_subnet_id app] [security_group_id canary_sg] r
           app_url canary_script (app_name @ ''-'' @ get_canary_name app) bucket_nm))
       (zip (get_app_names app) (get_app_urls app))"

definition cloud_infra ::
  "stack_env \<Rightarrow> config \<Rightarrow> application_config list \<Rightarrow> error + construct list" where
  "cloud_infra env config app_config =
     bind_res (create_artifact_store config) (\<lambda>bucket.
     bind_res (lookup_vpc env config) (\<lambda>v.
     bind_res (create_log_group config) (\<lambda>lg.
     bind_res (if is_primary config then fis_resources env config lg else Inr []) (\<lambda>fis.
     bind_res (if is_primary config
               then bind_res (create_canary_role env config (bucket_name bucket))
                      (\<lambda>r. Inr (Some r))
               else Inr None) (\<lambda>canary_role.
     let canary_script = canary_script_data config in
     bind_res (create_canary_security_group config v) (\<lambda>(canary_sg, s3_prefix_list).
     bind_res (for_each (app_canaries env config v canary_sg canary_role canary_script
                           (bucket_name bucket)) app_config) (\<lambda>canaries.
     Inr ([Bucket bucket, Vpc v, LogGroup lg] @ fis @
          (case canary_role of None \<Rightarrow> [] | Some r \<Rightarrow> [Role r]) @
          [SecurityGroup canary_sg, PrefixList s3_prefix_list] @
          map Canary (concat canaries)))))))))"

section \<open>The program: \<^verbatim>\<open>app.py\<close>\<close>

record synthesizer =
  sy_cloud_formation_execution_role :: string
  sy_deploy_role_arn :: string
  sy_file_asset_publishing_role_arn :: string
  sy_image_asset_publishing_role_arn :: string
  sy_lookup_role_arn :: string
  sy_file_assets_bucket_name :: string
  sy_bootstrap_stack_version_ssm_parameter :: string

definition deploy_role :: "piece list" where
  "deploy_role = [Lit ''arn:aws:iam::'', Key ''workload_account'', Lit '':role/''] @ name_prefix @
                 [Lit ''dply-role-main-a'']"

definition get_def_stack_synth :: "config \<Rightarrow> error + synthesizer" where
  "get_def_stack_synth config =
     bind_res (fstr config deploy_role) (\<lambda>r1.
     bind_res (fstr config deploy_role) (\<lambda>r2.
     bind_res (fstr config deploy_role) (\<lambda>r3.
     bind_res (fstr config deploy_role) (\<lambda>r4.
     bind_res (fstr config deploy_role) (\<lambda>r5.
     bind_res (fstr config [Key ''asset_prefix'', Lit ''-'', Key ''workload_account'', Lit ''-'',
                            Key ''deployment_region'', Lit ''-'', Key ''resource_suffix'']) (\<lambda>b.
     bind_res (fstr config [Key ''bootstrap_stack_version'']) (\<lambda>ver.
     Inr \<lparr>sy_cloud_formation_execution_role = r1,
          sy_deploy_role_arn = r2,
          sy_file_asset_publishing_role_arn = r3,
          sy_image_asset_publishing_role_arn = r4,
          sy_lookup_role_arn = r5,
          sy_file_assets_bucket_name = b,
          sy_bootstrap_stack_version_ssm_parameter = ver\<rparr>)))))))"

text \<open>One synthesized stack: what \<^verbatim>\<open>app.synth()\<close> writes for one region.\<close>

record stack =
  st_construct_id :: string
  st_account :: string
  st_region :: string
  st_synthesizer :: synthesizer
  st_constructs :: "construct list"
  st_tags :: "(string \<times> string) list"
  st_suppressions :: "(string \<times> string) list"

definition region_config_files :: "(string \<times> string) list" where
  "region_config_files =
     [(''eu-central-1'', ''resource.eu-central-1.config''),
      (''us-east-1'', ''resource.us-east-1.config'')]"

definition regions :: "string list" where
  "regions = map fst region_config_files"

definition primary_region :: string where
  "primary_region = hd regions"

text \<open>
  The configuration context of one region: the branch's section of the region's profile
  with \<^verbatim>\<open>primary_region\<close> and \<^verbatim>\<open>deployment_region\<close> stored into it.
\<close>

definition region_context :: "config \<Rightarrow> string \<Rightarrow> string \<Rightarrow> config" where
  "region_context section primary rgn =
     section(''primary_region'' \<mapsto> primary, ''deployment_region'' \<mapsto> rgn)"

text \<open>
  One pass of the loop of \<^verbatim>\<open>__main__\<close>. \<open>files\<close> gives the sections of each profile
  file (a file that does not exist has none); \<^verbatim>\<open>config_parser[branch_name]\<close> raises
  \<^verbatim>\<open>KeyError\<close> when the branch has no section. The arguments of the constructor are
  evaluated before it runs, the tags after it.
\<close>

definition compose_region ::
  "(string \<Rightarrow> string \<rightharpoonup> config) \<Rightarrow> (string \<Rightarrow> string) \<Rightarrow> string \<Rightarrow> application_config list \<Rightarrow>
   string \<Rightarrow> string \<times> string \<Rightarrow> error + stack" where
  "compose_region files cidr branch_name app_config primary = (\<lambda>(rgn, file).
     bind_res (case files file branch_name of
                 None \<Rightarrow> Inl (KeyError branch_name)
               | Some section \<Rightarrow> Inr section) (\<lambda>section.
     let config = region_context section primary rgn in
     bind_res (fstr config (name_prefix @ [Lit ''-infra-stack-'', Val rgn, Lit ''-'',
                                          Key ''resource_suffix''])) (\<lambda>construct_id.
     bind_res (fstr config [Key ''workload_account'']) (\<lambda>acct.
     bind_res (get_def_stack_synth config) (\<lambda>synth.
     bind_res (cloud_infra \<lparr>account = acct, region = rgn, lookup_cidr = cidr\<rparr> config
                 app_config) (\<lambda>constructs.
     bind_res (fstr config [Key ''app_env'']) (\<lambda>environment.
     bind_res (fstr config [Key ''cost_center'']) (\<lambda>cost_center.
     Inr \<lparr>st_construct_id = construct_id,
          st_account = acct,
          st_region = rgn,
          st_synthesizer = synth,
          st_constructs = constructs,
          st_tags = [(''sw:application'', ''mra''), (''sw:product'', ''mra''),
                     (''sw:environment'', environment), (''sw:cost_center'', cost_center)],
          st_suppressions =
            [(''AwsSolutions-S1'', ''Cloudtrail already capturing access of S3 data plane''),
             (''AwsSolutions-IAM5'', ''IAM policy with resource star''),
             (''AwsSolutions-IAM4'', ''IAM managed policy'')]\<rparr>))))))))"

text \<open>
  \<^verbatim>\<open>__main__\<close>: the branch is \<^verbatim>\<open>os.getenv("SRC_BRANCH", "dev")\<close>, where \<open>src_branch\<close>
  is the value of the environment variable if it is set; the stacks are composed in the
  order of the region list; \<^verbatim>\<open>app.synth()\<close> is reached, and the manifest written, only
  when no pass raised.
\<close>

definition getenv :: "string option \<Rightarrow> string \<Rightarrow> string" where
  "getenv var dflt = (case var of None \<Rightarrow> dflt | Some v \<Rightarrow> v)"

definition main ::
  "(string \<Rightarrow> string \<rightharpoonup> config) \<Rightarrow> (string \<Rightarrow> string) \<Rightarrow> string option \<Rightarrow>
   application_config list \<Rightarrow> error + stack list" where
  "main files cidr src_branch app_config =
     (let branch_name = getenv src_branch ''dev''
      in for_each (compose_region files cidr branch_name app_config primary_region)
           region_config_files)"

section \<open>Notions the properties are stated with\<close>

text \<open>
  The keys an f-string reads, and the string it builds when they are all present (a
  missing key contributes nothing there; \<open>fstr\<close> raises in that case).
\<close>

fun keys_of :: "piece list \<Rightarrow> string list" where
  "keys_of [] = []"
| "keys_of (Key k # ps) = k # keys_of ps"
| "keys_of (Lit s # ps) = keys_of ps"
| "keys_of (Val s # ps) = keys_of ps"

definition cval :: "config \<Rightarrow> string \<Rightarrow> string" where
  "cval config k = (case config k of None \<Rightarrow> [] | Some v \<Rightarrow> v)"

fun render :: "config \<Rightarrow> piece list \<Rightarrow> string" where
  "render config [] = []"
| "render config (Key k # ps) = cval config k @ render config ps"
| "render config (Lit s # ps) = s @ render config ps"
| "render config (Val s # ps) = s @ render config ps"

text \<open>The experiment templates of a stack, and their kinds, told by the action they run.\<close>

fun templates :: "construct list \<Rightarrow> experiment_template list" where
  "templates [] = []"
| "templates (ExperimentTemplate t # cs) = t # templates cs"
| "templates (c # cs) = templates cs"

definition action_ids :: "experiment_template \<Rightarrow> string list" where
  "action_ids t = map (\<lambda>(k, a). ac_action_id a) (et_actions t)"

definition is_ecs_task_stop :: "experiment_template \<Rightarrow> bool" where
  "is_ecs_task_stop t = (''aws:ecs:stop-task'' \<in> set (action_ids t))"

definition is_ecs_task_cpustress :: "experiment_template \<Rightarrow> bool" where
  "is_ecs_task_cpustress t = (''aws:ecs:task-cpu-stress'' \<in> set (action_ids t))"

definition is_ecs_task_iostress :: "experiment_template \<Rightarrow> bool" where
  "is_ecs_task_iostress t = (''aws:ecs:task-io-stress'' \<in> set (action_ids t))"

text \<open>
  The settings the experiment templates share: one account, failure when a target
  resolves to nothing, logs to the given log group, and the single stop condition
  \<^verbatim>\<open>{"source": "none"}\<close>.
\<close>

definition fis_common :: "log_group \<Rightarrow> experiment_template \<Rightarrow> bool" where
  "fis_common lg t \<longleftrightarrow>
     eo_account_targeting (et_experiment_options t) = ''single-account'' \<and>
     eo_empty_target_resolution_mode (et_experiment_options t) = ''fail'' \<and>
     lc_cloud_watch_logs_configuration (et_log_configuration t) =
       [(''LogGroupArn'', log_group_arn lg)] \<and>
     et_stop_conditions t = [[(''source'', ''none'')]]"


text \<open>
  The task-stop templates of a stack, and the name that
  \<^verbatim>\<open>create_fis_ecs_task_stop_experiment\<close> gives the template of a service and a
  percentage when the naming keys are present.
\<close>

definition task_stop_templates :: "construct list \<Rightarrow> experiment_template list" where
  "task_stop_templates stack = filter is_ecs_task_stop (templates stack)"

definition task_stop_name :: "config \<Rightarrow> string \<Rightarrow> string \<Rightarrow> string" where
  "task_stop_name config s p =
     render config (name_prefix @ [Lit ''-ecs-taskstop-'', Val s, Lit ''-p'', Val p,
                                   Lit ''-experiment-'', Key ''resource_suffix''])"


text \<open>
  Whitespace as \<^verbatim>\<open>str.isspace\<close> tells it for one-byte characters: the space, the
  control characters 9 to 13 and 28 to 31.
\<close>

definition is_space :: "char \<Rightarrow> bool" where
  "is_space c \<longleftrightarrow>
     c \<in> {CHR '' '', CHR 0x09, CHR 0x0A, CHR 0x0B, CHR 0x0C, CHR 0x0D,
           CHR 0x1C, CHR 0x1D, CHR 0x1E, CHR 0x1F}"

definition no_whitespace :: "string \<Rightarrow> bool" where
  "no_whitespace s \<longleftrightarrow> (\<forall>c \<in> set s. \<not> is_space c)"

text \<open>
  The names a construct carries: its identifier in the stack and the physical name the
  composer gives the resource (for a bucket also the name of its lifecycle rule, for an
  experiment template the \<^verbatim>\<open>Name\<close> tag).
\<close>

fun construct_names :: "construct \<Rightarrow> string list" where
  "construct_names (Bucket b) = bk_id b # bk_bucket_name b # map lr_id (bk_lifecycle_rules b)"
| "construct_names (Vpc v) = [vpc_construct_id v]"
| "construct_names (LogGroup l) = [lg_id l, lg_log_group_name l]"
| "construct_names (Role r) = [role_id r, role_name r]"
| "construct_names (ExperimentTemplate t) =
     et_id t # map snd (filter (\<lambda>(k, v). k = ''Name'') (et_tags t))"
| "construct_names (SecurityGroup g) = [sg_id g, sg_security_group_name g]"
| "construct_names (PrefixList p) = [pl_construct_id p]"
| "construct_names (Canary c) = [cn_id c, cn_name c]"

fun canaries :: "construct list \<Rightarrow> canary list" where
  "canaries [] = []"
| "canaries (Canary c # cs) = c # canaries cs"
| "canaries (c # cs) = canaries cs"

text \<open>
  The account-wide resources: roles and experiment templates. Buckets, log groups,
  security groups and canaries belong to a region.
\<close>

fun is_global :: "construct \<Rightarrow> bool" where
  "is_global (Role r) = True"
| "is_global (ExperimentTemplate t) = True"
| "is_global c = False"

text \<open>
  The keys that the composition of every region reads, and those that only the
  composition of the primary region reads.
\<close>

definition naming_keys :: "string list" where
  "naming_keys = [''resource_prefix'', ''service_name'', ''app_env'', ''app_name'',
                  ''resource_suffix'']"

definition regional_keys :: "string list" where
  "regional_keys = naming_keys @ [''workload_account'', ''vpc_id'', ''s3_prefix_list'']"

definition primary_keys :: "string list" where
  "primary_keys = [''subnet_az1_list'', ''az1_name'', ''db_clusters'', ''subnet_az2_list'',
                   ''az2_name'', ''ecs_services'', ''ecs_taks_percents'']"

text \<open>All keys the constructor of the stack can read, and those that reach a name.\<close>

definition stack_keys :: "string list" where
  "stack_keys = regional_keys @ primary_keys @ [''deployment_region'', ''primary_region'']"

definition name_keys :: "string list" where
  "name_keys = naming_keys @ [''workload_account'', ''ecs_services'', ''ecs_taks_percents'',
                              ''db_clusters'']"

text \<open>The keys that \<^verbatim>\<open>__main__\<close> reads besides those the stack reads.\<close>

definition program_keys :: "string list" where
  "program_keys = [''asset_prefix'', ''bootstrap_stack_version'', ''cost_center'']"

text \<open>A profile of the \<^verbatim>\<open>dev\<close> branch and an application with two URLs, as examples.\<close>

definition dev_profile :: config where
  "dev_profile = map_of
     [(''resource_prefix'', ''sw''), (''service_name'', ''mra''), (''app_env'', ''dev''),
      (''app_name'', ''chaos''), (''resource_suffix'', ''main-a''),
      (''workload_account'', ''123456789012''), (''asset_prefix'', ''cdk''),
      (''cost_center'', ''cc-1''), (''bootstrap_stack_version'', ''/cdk-bootstrap/version''),
      (''vpc_id'', ''vpc-0a1b''), (''s3_prefix_list'', ''pl-6ea54007''),
      (''subnet_az1_list'', ''subnet-1,subnet-2''), (''az1_name'', ''eu-central-1a''),
      (''subnet_az2_list'', ''subnet-3''), (''az2_name'', ''eu-central-1b''),
      (''db_clusters'', ''db1''), (''ecs_services'', ''svc-a,svc-b''),
      (''ecs_taks_percents'', ''25,50'')]"

definition dev_env :: "string \<Rightarrow> stack_env" where
  "dev_env rgn = \<lparr>account = ''123456789012'', region = rgn, lookup_cidr = (\<lambda>v. ''10.0.0.0/16'')\<rparr>"

definition dev_files :: "string \<Rightarrow> string \<rightharpoonup> config" where
  "dev_files file = [''dev'' \<mapsto> dev_profile]"

definition two_url_app :: application_config where
  "two_url_app = \<lparr>get_app_names = [''web'', ''api''],
                  get_app_urls = [''https://web.example.com'', ''https://api.example.com''],
                  get_subnet_id = ''subnet-1'',
                  get_canary_name = ''cn''\<rparr>"

section \<open>Basic facts about errors, f-strings and loops\<close>

lemma bind_res_Inl [simp]: "bind_res (Inl e) f = Inl e"
  by (simp add: bind_res_def)

lemma bind_res_Inr [simp]: "bind_res (Inr x) f = f x"
  by (simp add: bind_res_def)

lemma bind_res_eq_Inr: "bind_res m f = Inr y \<longleftrightarrow> (\<exists>x. m = Inr x \<and> f x = Inr y)"
  by (cases m) simp_all

lemma bind_res_eq_Inl:
  "bind_res m f = Inl e \<longleftrightarrow> m = Inl e \<or> (\<exists>x. m = Inr x \<and> f x = Inl e)"
  by (cases m) simp_all

lemma getitem_eq_Inr: "getitem config k = Inr v \<longleftrightarrow> config k = Some v"
  by (simp add: getitem_def split: option.splits)

lemma getitem_eq_Inl: "getitem config k = Inl e \<longleftrightarrow> config k = None \<and> e = KeyError k"
  by (auto simp add: getitem_def split: option.splits)

text \<open>An f-string succeeds exactly when all its keys are present, and then renders them.\<close>

lemma fstr_eq_Inr:
  "fstr config ps = Inr s \<longleftrightarrow> set (keys_of ps) \<subseteq> dom config \<and> s = render config ps"
proof (induction ps arbitrary: s)
  case Nil
  show ?case by auto
next
  case (Cons p ps)
  show ?case
  proof (cases p)
    case (Lit l)
    then show ?thesis by (auto simp add: bind_res_eq_Inr Cons.IH)
  next
    case (Key k)
    then show ?thesis
      by (auto simp add: bind_res_eq_Inr Cons.IH getitem_eq_Inr cval_def)
  next
    case (Val l)
    then show ?thesis by (auto simp add: bind_res_eq_Inr Cons.IH)
  qed
qed

text \<open>Its only exception is the \<^verbatim>\<open>KeyError\<close> of one of its keys that is missing.\<close>

lemma fstr_eq_Inl:
  "fstr config ps = Inl e \<Longrightarrow> \<exists>k \<in> set (keys_of ps). config k = None \<and> e = KeyError k"
proof (induction ps)
  case Nil
  then show ?case by simp
next
  case (Cons p ps)
  then show ?case
    by (cases p) (auto simp add: bind_res_eq_Inl getitem_eq_Inl)
qed

lemma fstr_present:
  "set (keys_of ps) \<subseteq> dom config \<Longrightarrow> fstr config ps = Inr (render config ps)"
  by (simp add: fstr_eq_Inr)

lemma fstr_missing:
  assumes "\<not> set (keys_of ps) \<subseteq> dom config"
  shows "\<exists>k. config k = None \<and> fstr config ps = Inl (KeyError k)"
proof -
  from assms have "\<not> (\<exists>s. fstr config ps = Inr s)"
    by (simp add: fstr_eq_Inr)
  then obtain e where e: "fstr config ps = Inl e"
    by (cases "fstr config ps") auto
  from fstr_eq_Inl [OF e] e show ?thesis by auto
qed

text \<open>From here on f-strings are reasoned about through these facts, not unfolded.\<close>

declare fstr.simps [simp del]


lemma keys_of_append: "keys_of (ps @ qs) = keys_of ps @ keys_of qs"
  by (induction ps rule: keys_of.induct) simp_all

lemma keys_of_name_prefix:
  "keys_of name_prefix = [''resource_prefix'', ''service_name'', ''app_env'', ''app_name'']"
  by (simp add: name_prefix_def)

text \<open>A loop succeeds exactly when its body succeeds on every element, in order.\<close>

lemma for_each_eq_Inr: "for_each f xs = Inr ys \<longleftrightarrow> list_all2 (\<lambda>x y. f x = Inr y) xs ys"
proof (induction xs arbitrary: ys)
  case Nil
  show ?case by auto
next
  case (Cons x xs)
  show ?case by (cases ys) (auto simp add: bind_res_eq_Inr Cons.IH)
qed

lemma split_on_nonempty: "split_on c s \<noteq> []"
  by (induction s) simp_all

section \<open>What the composers and the stack return\<close>

lemma task_stop_shape:
  assumes "create_fis_ecs_task_stop_experiment config rl lg a p = Inr t"
  shows "et_id t = render config (name_prefix @ [Lit ''-ecs-taskstop-'', Val a, Lit ''-p'',
           Val p, Lit ''-experiment-'', Key ''resource_suffix''])"
    and "action_ids t = [''aws:ecs:stop-task'']"
    and "fis_common lg t"
  using assms
  by (auto simp add: create_fis_ecs_task_stop_experiment_def bind_res_eq_Inr fstr_eq_Inr
      action_ids_def fis_common_def)

lemma az_shape:
  assumes "create_fis_network_subnet_experiment env config sl tn rl lg az dbs = Inr t"
  shows "et_id t = render config (name_prefix @ [Lit ''-azfailure-experiment-'', Val tn, Lit ''-'',
           Key ''resource_suffix''])"
    and "action_ids t = [''aws:network:disrupt-connectivity'', ''aws:rds:failover-db-cluster'',
           ''aws:elasticache:replicationgroup-interrupt-az-power'', ''aws:fis:wait'']"
    and "fis_common lg t"
  using assms
  by (auto simp add: create_fis_network_subnet_experiment_def bind_res_eq_Inr fstr_eq_Inr
      action_ids_def fis_common_def Let_def)

lemma rds_shape:
  assumes "create_fis_rds_failover_experiment env config rl lg d = Inr t"
  shows "et_id t = render config (name_prefix @ [Lit ''-rdsfailover-'', Val d,
           Lit ''-experiment-'', Key ''resource_suffix''])"
    and "action_ids t = [''aws:rds:failover-db-cluster'']"
    and "fis_common lg t"
  using assms
  by (auto simp add: create_fis_rds_failover_experiment_def bind_res_eq_Inr fstr_eq_Inr
      action_ids_def fis_common_def)

lemma cloud_infra_Inr:
  assumes "cloud_infra env config apps = Inr stack"
  obtains bucket v lg fis cr sg pl cans where
    "create_artifact_store config = Inr bucket"
    "lookup_vpc env config = Inr v"
    "create_log_group config = Inr lg"
    "if is_primary config then fis_resources env config lg = Inr fis else fis = []"
    "if is_primary config
     then \<exists>r. create_canary_role env config (bucket_name bucket) = Inr r \<and> cr = Some r
     else cr = None"
    "create_canary_security_group config v = Inr (sg, pl)"
    "for_each (app_canaries env config v sg cr (canary_script_data config) (bucket_name bucket))
       apps = Inr cans"
    "stack = [Bucket bucket, Vpc v, LogGroup lg] @ fis @
       (case cr of None \<Rightarrow> [] | Some r \<Rightarrow> [Role r]) @
       [SecurityGroup sg, PrefixList pl] @ map Canary (concat cans)"
  using assms unfolding cloud_infra_def Let_def
  by (auto simp add: bind_res_eq_Inr split: if_splits prod.splits)


lemma fis_resources_Inr:
  assumes "fis_resources env config lg = Inr fis"
  obtains fis_role az1 az2 ecs rds sl1 n1 sl2 n2 ss ps dbs where
    "create_fis_role env config = Inr fis_role"
    "config ''subnet_az1_list'' = Some sl1" "config ''az1_name'' = Some n1"
    "config ''subnet_az2_list'' = Some sl2" "config ''az2_name'' = Some n2"
    "config ''db_clusters'' = Some dbs"
    "config ''ecs_services'' = Some ss" "config ''ecs_taks_percents'' = Some ps"
    "create_fis_network_subnet_experiment env config sl1 ''az1'' fis_role lg n1 dbs = Inr az1"
    "create_fis_network_subnet_experiment env config sl2 ''az2'' fis_role lg n2 dbs = Inr az2"
    "list_all2 (\<lambda>s ts. list_all2 (\<lambda>p t.
         create_fis_ecs_task_stop_experiment config fis_role lg s p = Inr t)
       (split_on CHR '','' ps) ts) (split_on CHR '','' ss) ecs"
    "list_all2 (\<lambda>d t. create_fis_rds_failover_experiment env config fis_role lg d = Inr t)
       (split_on CHR '','' dbs) rds"
    "fis = Role fis_role # ExperimentTemplate az1 # ExperimentTemplate az2 #
       map ExperimentTemplate (concat ecs) @ map ExperimentTemplate rds"
proof -
  from assms obtain fis_role sl1 n1 dbs az1 sl2 n2 az2 ss ecs rds where
    f: "create_fis_role env config = Inr fis_role"
    and k: "config ''subnet_az1_list'' = Some sl1" "config ''az1_name'' = Some n1"
      "config ''subnet_az2_list'' = Some sl2" "config ''az2_name'' = Some n2"
      "config ''db_clusters'' = Some dbs" "config ''ecs_services'' = Some ss"
    and a: "create_fis_network_subnet_experiment env config sl1 ''az1'' fis_role lg n1 dbs = Inr az1"
      "create_fis_network_subnet_experiment env config sl2 ''az2'' fis_role lg n2 dbs = Inr az2"
    and e: "list_all2 (\<lambda>s ts. bind_res (getitem config ''ecs_taks_percents'') (\<lambda>pcts.
         for_each (create_fis_ecs_task_stop_experiment config fis_role lg s)
           (split_on CHR '','' pcts)) = Inr ts) (split_on CHR '','' ss) ecs"
    and r: "list_all2 (\<lambda>d t. create_fis_rds_failover_experiment env config fis_role lg d = Inr t)
       (split_on CHR '','' dbs) rds"
    and s: "fis = Role fis_role # ExperimentTemplate az1 # ExperimentTemplate az2 #
       map ExperimentTemplate (concat ecs) @ map ExperimentTemplate rds"
    unfolding fis_resources_def
    by (auto simp add: bind_res_eq_Inr getitem_eq_Inr for_each_eq_Inr)
  from e split_on_nonempty [of "CHR '',''" ss] obtain ps where
    p: "config ''ecs_taks_percents'' = Some ps"
    by (cases "split_on CHR '','' ss"; cases ecs)
      (auto simp add: bind_res_eq_Inr getitem_eq_Inr)
  from e p have e': "list_all2 (\<lambda>s ts. list_all2 (\<lambda>p t.
         create_fis_ecs_task_stop_experiment config fis_role lg s p = Inr t)
       (split_on CHR '','' ps) ts) (split_on CHR '','' ss) ecs"
    by (simp add: getitem_def for_each_eq_Inr)
  from f k p a e' r s show thesis by (rule that)
qed

lemma templates_append: "templates (xs @ ys) = templates xs @ templates ys"
  by (induction xs rule: templates.induct) simp_all

lemma templates_map_ExperimentTemplate: "templates (map ExperimentTemplate ts) = ts"
  by (induction ts) simp_all

lemma templates_map_Canary: "templates (map Canary cs) = []"
  by (induction cs) simp_all

lemma canaries_append: "canaries (xs @ ys) = canaries xs @ canaries ys"
  by (induction xs rule: canaries.induct) simp_all

lemma canaries_map_Canary: "canaries (map Canary cs) = cs"
  by (induction cs) simp_all

lemma canaries_map_ExperimentTemplate: "canaries (map ExperimentTemplate ts) = []"
  by (induction ts) simp_all

lemma nested_loop_map:
  assumes "list_all2 (\<lambda>s ts. list_all2 (\<lambda>p t. f s p = Inr t) P ts) S tss"
    and "\<And>s p t. f s p = Inr t \<Longrightarrow> g t = h s p"
  shows "map g (concat tss) = map (\<lambda>(s, p). h s p) (List.product S P)"
  using assms(1)
proof (induction rule: list_all2_induct)
  case Nil
  show ?case by simp
next
  case (Cons s S ts tss)
  from Cons.hyps(1) have "map g ts = map (h s) P"
    by (induction rule: list_all2_induct) (simp_all add: assms(2))
  with Cons.IH show ?case by (simp add: o_def)
qed

lemma loop_map:
  assumes "list_all2 (\<lambda>p t. f p = Inr t) P ts"
    and "\<And>p t. f p = Inr t \<Longrightarrow> g t = h p"
  shows "map g ts = map h P"
  using assms(1) by (induction rule: list_all2_induct) (simp_all add: assms(2))

lemma loop_all:
  assumes "list_all2 (\<lambda>p t. f p = Inr t) P ts"
    and "\<And>p t. f p = Inr t \<Longrightarrow> Q t"
  shows "\<forall>t \<in> set ts. Q t"
  using assms(1) by (induction rule: list_all2_induct) (simp_all add: assms(2))

lemma nested_loop_all:
  assumes "list_all2 (\<lambda>s ts. list_all2 (\<lambda>p t. f s p = Inr t) P ts) S tss"
    and "\<And>s p t. f s p = Inr t \<Longrightarrow> Q t"
  shows "\<forall>t \<in> set (concat tss). Q t"
  using assms(1)
proof (induction rule: list_all2_induct)
  case Nil
  show ?case by simp
next
  case (Cons s S ts tss)
  from Cons.hyps(1) have "\<forall>t \<in> set ts. Q t"
    by (rule loop_all) (rule assms(2))
  with Cons.IH show ?case by auto
qed

section \<open>The artifact store\<close>



lemma app_canaries_unbound:
  "app_canaries env config v sg None script bn app = Inr cs \<longleftrightarrow>
     zip (get_app_names app) (get_app_urls app) = [] \<and> cs = []"
  unfolding app_canaries_def
  by (cases "zip (get_app_names app) (get_app_urls app)")
    (auto simp add: bind_res_eq_Inr split: prod.splits)

lemma all_canaries_unbound:
  "for_each (app_canaries env config v sg None script bn) apps = Inr cans \<Longrightarrow> concat cans = []"
  unfolding for_each_eq_Inr
  by (induction rule: list_all2_induct) (simp_all add: app_canaries_unbound)

lemma cloud_infra_secondary:
  assumes "cloud_infra env config apps = Inr stack" and "\<not> is_primary config"
  obtains bucket v lg sg pl where
    "create_artifact_store config = Inr bucket"
    "lookup_vpc env config = Inr v"
    "create_log_group config = Inr lg"
    "create_canary_security_group config v = Inr (sg, pl)"
    "stack = [Bucket bucket, Vpc v, LogGroup lg, SecurityGroup sg, PrefixList pl]"
proof -
  from assms(1) obtain bucket v lg fis cr sg pl cans where
    c: "create_artifact_store config = Inr bucket"
      "lookup_vpc env config = Inr v"
      "create_log_group config = Inr lg"
      "if is_primary config then fis_resources env config lg = Inr fis else fis = []"
      "if is_primary config
       then \<exists>r. create_canary_role env config (bucket_name bucket) = Inr r \<and> cr = Some r
       else cr = None"
      "create_canary_security_group config v = Inr (sg, pl)"
      "for_each (app_canaries env config v sg cr (canary_script_data config) (bucket_name bucket))
         apps = Inr cans"
      "stack = [Bucket bucket, Vpc v, LogGroup lg] @ fis @
         (case cr of None \<Rightarrow> [] | Some r \<Rightarrow> [Role r]) @
         [SecurityGroup sg, PrefixList pl] @ map Canary (concat cans)"
    by (rule cloud_infra_Inr)
  from c(4,5) assms(2) have n: "fis = []" "cr = None" by simp_all
  with c(7) have "concat cans = []" by (auto dest: all_canaries_unbound)
  with c(8) n have "stack = [Bucket bucket, Vpc v, LogGroup lg, SecurityGroup sg, PrefixList pl]"
    by simp
  with c(1,2,3,6) show thesis by (rule that)
qed

lemma cloud_infra_primary:
  assumes "cloud_infra env config apps = Inr stack" and "is_primary config"
  obtains bucket v lg fis_role az1 az2 ecs rds cr sg pl cans sl1 n1 sl2 n2 ss ps dbs where
    "create_artifact_store config = Inr bucket"
    "lookup_vpc env config = Inr v"
    "create_log_group config = Inr lg"
    "create_fis_role env config = Inr fis_role"
    "config ''db_clusters'' = Some dbs"
    "config ''ecs_services'' = Some ss" "config ''ecs_taks_percents'' = Some ps"
    "create_fis_network_subnet_experiment env config sl1 ''az1'' fis_role lg n1 dbs = Inr az1"
    "create_fis_network_subnet_experiment env config sl2 ''az2'' fis_role lg n2 dbs = Inr az2"
    "list_all2 (\<lambda>s ts. list_all2 (\<lambda>p t.
         create_fis_ecs_task_stop_experiment config fis_role lg s p = Inr t)
       (split_on CHR '','' ps) ts) (split_on CHR '','' ss) ecs"
    "list_all2 (\<lambda>d t. create_fis_rds_failover_experiment env config fis_role lg d = Inr t)
       (split_on CHR '','' dbs) rds"
    "create_canary_role env config (bucket_name bucket) = Inr cr"
    "create_canary_security_group config v = Inr (sg, pl)"
    "for_each (app_canaries env config v sg (Some cr) (canary_script_data config)
       (bucket_name bucket)) apps = Inr cans"
    "stack = [Bucket bucket, Vpc v, LogGroup lg, Role fis_role, ExperimentTemplate az1,
         ExperimentTemplate az2] @
       map ExperimentTemplate (concat ecs) @ map ExperimentTemplate rds @
       [Role cr, SecurityGroup sg, PrefixList pl] @ map Canary (concat cans)"
proof -
  from assms(1) obtain bucket v lg fis cr sg pl cans where
    c: "create_artifact_store config = Inr bucket"
      "lookup_vpc env config = Inr v"
      "create_log_group config = Inr lg"
      "if is_primary config then fis_resources env config lg = Inr fis else fis = []"
      "if is_primary config
       then \<exists>r. create_canary_role env config (bucket_name bucket) = Inr r \<and> cr = Some r
       else cr = None"
      "create_canary_security_group config v = Inr (sg, pl)"
      "for_each (app_canaries env config v sg cr (canary_script_data config) (bucket_name bucket))
         apps = Inr cans"
      "stack = [Bucket bucket, Vpc v, LogGroup lg] @ fis @
         (case cr of None \<Rightarrow> [] | Some r \<Rightarrow> [Role r]) @
         [SecurityGroup sg, PrefixList pl] @ map Canary (concat cans)"
    by (rule cloud_infra_Inr)
  from c(4) assms(2) have "fis_resources env config lg = Inr fis" by simp
  then obtain fis_role az1 az2 ecs rds sl1 n1 sl2 n2 ss ps dbs where
    f: "create_fis_role env config = Inr fis_role"
      "config ''subnet_az1_list'' = Some sl1" "config ''az1_name'' = Some n1"
      "config ''subnet_az2_list'' = Some sl2" "config ''az2_name'' = Some n2"
      "config ''db_clusters'' = Some dbs"
      "config ''ecs_services'' = Some ss" "config ''ecs_taks_percents'' = Some ps"
      "create_fis_network_subnet_experiment env config sl1 ''az1'' fis_role lg n1 dbs = Inr az1"
      "create_fis_network_subnet_experiment env config sl2 ''az2'' fis_role lg n2 dbs = Inr az2"
      "list_all2 (\<lambda>s ts. list_all2 (\<lambda>p t.
           create_fis_ecs_task_stop_experiment config fis_role lg s p = Inr t)
         (split_on CHR '','' ps) ts) (split_on CHR '','' ss) ecs"
      "list_all2 (\<lambda>d t. create_fis_rds_failover_experiment env config fis_role lg d = Inr t)
         (split_on CHR '','' dbs) rds"
      "fis = Role fis_role # ExperimentTemplate az1 # ExperimentTemplate az2 #
         map ExperimentTemplate (concat ecs) @ map ExperimentTemplate rds"
    by (rule fis_resources_Inr)
  from c(5) assms(2) obtain r where
    r: "create_canary_role env config (bucket_name bucket) = Inr r" "cr = Some r"
    by auto
  from c(8) f(13) r(2) have
    "stack = [Bucket bucket, Vpc v, LogGroup lg, Role fis_role, ExperimentTemplate az1,
         ExperimentTemplate az2] @
       map ExperimentTemplate (concat ecs) @ map ExperimentTemplate rds @
       [Role r, SecurityGroup sg, PrefixList pl] @ map Canary (concat cans)"
    by simp
  with c(1,2,3) f(1,6,7,8,9,10,11,12) r(1) c(6) c(7) [unfolded r(2)]
  show thesis by (rule that)
qed

section \<open>When the composers succeed\<close>

lemma regional_keys_present:
  assumes "set regional_keys \<subseteq> dom config"
  shows "''resource_prefix'' \<in> dom config" "''service_name'' \<in> dom config"
    "''app_env'' \<in> dom config" "''app_name'' \<in> dom config"
    "''resource_suffix'' \<in> dom config" "''workload_account'' \<in> dom config"
    "''vpc_id'' \<in> dom config" "''s3_prefix_list'' \<in> dom config"
  using assms by (simp_all add: regional_keys_def naming_keys_def)

lemma primary_keys_present:
  assumes "set primary_keys \<subseteq> dom config"
  shows "''subnet_az1_list'' \<in> dom config" "''az1_name'' \<in> dom config"
    "''db_clusters'' \<in> dom config" "''subnet_az2_list'' \<in> dom config"
    "''az2_name'' \<in> dom config" "''ecs_services'' \<in> dom config"
    "''ecs_taks_percents'' \<in> dom config"
  using assms by (simp_all add: primary_keys_def)

lemma for_each_total:
  assumes "\<And>x. x \<in> set xs \<Longrightarrow> \<exists>y. f x = Inr y"
  shows "\<exists>ys. for_each f xs = Inr ys"
  using assms
proof (induction xs)
  case Nil
  show ?case by simp
next
  case (Cons x xs)
  from Cons.prems obtain y where "f x = Inr y" by auto
  moreover from Cons obtain ys where "for_each f xs = Inr ys" by auto
  ultimately show ?case by simp
qed

lemma create_artifact_store_total:
  assumes "set regional_keys \<subseteq> dom config"
  shows "\<exists>b. create_artifact_store config = Inr b"
  using regional_keys_present [OF assms]
  by (simp add: create_artifact_store_def bind_res_eq_Inr fstr_eq_Inr keys_of_append
      keys_of_name_prefix)

lemma lookup_vpc_total:
  assumes "set regional_keys \<subseteq> dom config"
  shows "\<exists>v. lookup_vpc env config = Inr v"
  using regional_keys_present [OF assms]
  by (simp add: lookup_vpc_def bind_res_eq_Inr fstr_eq_Inr keys_of_append keys_of_name_prefix)

lemma create_log_group_total:
  assumes "set regional_keys \<subseteq> dom config"
  shows "\<exists>lg. create_log_group config = Inr lg"
  using regional_keys_present [OF assms]
  by (simp add: create_log_group_def bind_res_eq_Inr fstr_eq_Inr keys_of_append
      keys_of_name_prefix)

lemma create_canary_security_group_total:
  assumes "set regional_keys \<subseteq> dom config"
  shows "\<exists>sg pl. create_canary_security_group config v = Inr (sg, pl)"
  using regional_keys_present [OF assms]
  by (auto simp add: create_canary_security_group_def bind_res_eq_Inr fstr_eq_Inr keys_of_append
      keys_of_name_prefix getitem_eq_Inr Let_def)

lemma create_canary_role_total:
  assumes "set regional_keys \<subseteq> dom config"
  shows "\<exists>r. create_canary_role env config bn = Inr r"
  using regional_keys_present [OF assms]
  by (simp add: create_canary_role_def bind_res_eq_Inr fstr_eq_Inr keys_of_append
      keys_of_name_prefix)

lemma create_fis_role_total:
  assumes "set regional_keys \<subseteq> dom config"
  shows "\<exists>r. create_fis_role env config = Inr r"
  using regional_keys_present [OF assms]
  by (simp add: create_fis_role_def bind_res_eq_Inr fstr_eq_Inr keys_of_append
      keys_of_name_prefix)

lemma create_canary_total:
  assumes "set regional_keys \<subseteq> dom config"
  shows "\<exists>c. create_canary env config v sn sg r url script nm bn = Inr c"
  using regional_keys_present [OF assms]
  by (simp add: create_canary_def bind_res_eq_Inr fstr_eq_Inr keys_of_append
      keys_of_name_prefix)

lemma create_fis_ecs_task_stop_experiment_total:
  assumes "set regional_keys \<subseteq> dom config"
  shows "\<exists>t. create_fis_ecs_task_stop_experiment config rl lg a p = Inr t"
  using regional_keys_present [OF assms]
  by (simp add: create_fis_ecs_task_stop_experiment_def bind_res_eq_Inr fstr_eq_Inr
      keys_of_append keys_of_name_prefix)

lemma create_fis_rds_failover_experiment_total:
  assumes "set regional_keys \<subseteq> dom config"
  shows "\<exists>t. create_fis_rds_failover_experiment env config rl lg d = Inr t"
  using regional_keys_present [OF assms]
  by (simp add: create_fis_rds_failover_experiment_def bind_res_eq_Inr fstr_eq_Inr
      keys_of_append keys_of_name_prefix)

lemma create_fis_network_subnet_experiment_total:
  assumes "set regional_keys \<subseteq> dom config"
  shows "\<exists>t. create_fis_network_subnet_experiment env config sl tn rl lg az dbs = Inr t"
proof -
  note k = regional_keys_present [OF assms]
  have "\<exists>arns. for_each (\<lambda>db_app_name.
         fstr config [Lit ''arn:aws:rds:'', Val (region env), Lit '':'', Val (account env),
                      Lit '':cluster:'', Key ''resource_prefix'', Lit ''-'', Key ''service_name'',
                      Lit ''-'', Key ''app_env'', Lit ''-'', Val db_app_name, Lit ''-'',
                      Key ''resource_suffix''])
       (split_on CHR '','' dbs) = Inr arns"
    using k by (intro for_each_total) (simp add: fstr_eq_Inr)
  then show ?thesis
    using k
    by (auto simp add: create_fis_network_subnet_experiment_def bind_res_eq_Inr fstr_eq_Inr
        keys_of_append keys_of_name_prefix Let_def)
qed

lemma fis_resources_total:
  assumes "set regional_keys \<subseteq> dom config" and "set primary_keys \<subseteq> dom config"
  shows "\<exists>fis. fis_resources env config lg = Inr fis"
proof -
  from primary_keys_present [OF assms(2)] obtain sl1 n1 dbs sl2 n2 ss ps where
    k: "config ''subnet_az1_list'' = Some sl1" "config ''az1_name'' = Some n1"
      "config ''db_clusters'' = Some dbs" "config ''subnet_az2_list'' = Some sl2"
      "config ''az2_name'' = Some n2" "config ''ecs_services'' = Some ss"
      "config ''ecs_taks_percents'' = Some ps"
    by auto
  from create_fis_role_total [OF assms(1)] obtain fis_role where
    r: "create_fis_role env config = Inr fis_role" by blast
  from create_fis_network_subnet_experiment_total [OF assms(1)] obtain az1 where
    a1: "create_fis_network_subnet_experiment env config sl1 ''az1'' fis_role lg n1 dbs = Inr az1"
    by blast
  from create_fis_network_subnet_experiment_total [OF assms(1)] obtain az2 where
    a2: "create_fis_network_subnet_experiment env config sl2 ''az2'' fis_role lg n2 dbs = Inr az2"
    by blast
  have "\<exists>ecs. for_each (\<lambda>ecs_name.
           for_each (create_fis_ecs_task_stop_experiment config fis_role lg ecs_name)
             (split_on CHR '','' ps))
         (split_on CHR '','' ss) = Inr ecs"
    by (intro for_each_total create_fis_ecs_task_stop_experiment_total [OF assms(1)])
  then obtain ecs where e: "for_each (\<lambda>ecs_name.
           for_each (create_fis_ecs_task_stop_experiment config fis_role lg ecs_name)
             (split_on CHR '','' ps))
         (split_on CHR '','' ss) = Inr ecs" ..
  have "\<exists>rds. for_each (\<lambda>db_name.
           create_fis_rds_failover_experiment env config fis_role lg db_name)
         (split_on CHR '','' dbs) = Inr rds"
    by (intro for_each_total create_fis_rds_failover_experiment_total [OF assms(1)])
  then obtain rds where d: "for_each (\<lambda>db_name.
           create_fis_rds_failover_experiment env config fis_role lg db_name)
         (split_on CHR '','' dbs) = Inr rds" ..
  show ?thesis
    unfolding fis_resources_def
    by (simp add: r getitem_def k a1 a2 e d)
qed

lemma app_canaries_total:
  assumes "set regional_keys \<subseteq> dom config"
  shows "\<exists>cs. app_canaries env config v sg (Some r) script bn app = Inr cs"
  unfolding app_canaries_def
  by (intro for_each_total) (auto simp add: create_canary_total [OF assms])

text \<open>
  In the primary region the stack is composed whenever the keys it reads are present,
  whatever the applications.
\<close>

lemma cloud_infra_total_primary:
  assumes "is_primary config"
    and "set regional_keys \<subseteq> dom config" and "set primary_keys \<subseteq> dom config"
  shows "\<exists>stack. cloud_infra env config apps = Inr stack"
proof -
  from create_artifact_store_total [OF assms(2)] obtain bucket where
    b: "create_artifact_store config = Inr bucket" by blast
  from lookup_vpc_total [OF assms(2)] obtain v where
    v: "lookup_vpc env config = Inr v" by blast
  from create_log_group_total [OF assms(2)] obtain lg where
    l: "create_log_group config = Inr lg" by blast
  from fis_resources_total [OF assms(2,3)] obtain fis where
    f: "fis_resources env config lg = Inr fis" by blast
  from create_canary_role_total [OF assms(2)] obtain r where
    r: "create_canary_role env config (bucket_name bucket) = Inr r" by blast
  from create_canary_security_group_total [OF assms(2)] obtain sg pl where
    s: "create_canary_security_group config v = Inr (sg, pl)" by blast
  have "\<exists>cans. for_each (app_canaries env config v sg (Some r) (canary_script_data config)
      (bucket_name bucket)) apps = Inr cans"
    by (intro for_each_total app_canaries_total [OF assms(2)])
  then obtain cans where c: "for_each (app_canaries env config v sg (Some r)
      (canary_script_data config) (bucket_name bucket)) apps = Inr cans" ..
  show ?thesis
    unfolding cloud_infra_def
    by (simp add: b v l f r s c assms(1) Let_def)
qed

section \<open>When composition fails\<close>



lemma for_each_first_error:
  assumes "\<And>x. x \<in> set xs \<Longrightarrow> f x = Inl e \<or> (\<exists>y. f x = Inr y)"
    and "\<exists>x \<in> set xs. f x = Inl e"
  shows "for_each f xs = Inl e"
  using assms
proof (induction xs)
  case Nil
  then show ?case by simp
next
  case (Cons a xs)
  show ?case
  proof (cases "f a")
    case (Inl e')
    with Cons.prems(1) [of a] show ?thesis by simp
  next
    case (Inr y)
    with Cons.prems(2) have "\<exists>x \<in> set xs. f x = Inl e" by auto
    with Cons.IH Cons.prems(1) have "for_each f xs = Inl e" by simp
    with Inr show ?thesis by simp
  qed
qed

















section \<open>The passes of the program\<close>

lemma region_context_regions [simp]:
  "region_context sect p r ''primary_region'' = Some p"
  "region_context sect p r ''deployment_region'' = Some r"
  by (simp_all add: region_context_def)

lemma region_context_other:
  "k \<noteq> ''primary_region'' \<Longrightarrow> k \<noteq> ''deployment_region'' \<Longrightarrow>
     region_context sect p r k = sect k"
  by (simp add: region_context_def)

lemma is_primary_region_context: "is_primary (region_context sect p r) \<longleftrightarrow> r = p"
  by (auto simp add: is_primary_def)




lemma compose_region_Inr:
  assumes "compose_region files cidr b apps p (rgn, fl) = Inr st"
  obtains sect acct where
    "files fl b = Some sect"
    "cloud_infra \<lparr>account = acct, region = rgn, lookup_cidr = cidr\<rparr>
       (region_context sect p rgn) apps = Inr (st_constructs st)"
    "st_region st = rgn"
  using assms
  by (auto simp add: compose_region_def bind_res_eq_Inr Let_def split: option.splits)

lemma main_Inr:
  "main files cidr src_branch apps = Inr stacks \<longleftrightarrow>
     list_all2 (\<lambda>rf st. compose_region files cidr (getenv src_branch ''dev'') apps
       primary_region rf = Inr st) region_config_files stacks"
  by (simp add: main_def for_each_eq_Inr)

lemma primary_region_eq: "primary_region = ''eu-central-1''"
  by (simp add: primary_region_def regions_def region_config_files_def)

lemma regions_eq: "regions = [''eu-central-1'', ''us-east-1'']"
  by (simp add: regions_def region_config_files_def)





section \<open>The canaries and the role they run with\<close>

lemma app_canaries_unbound_value:
  "app_canaries env config v sg None script bn app =
     (if zip (get_app_names app) (get_app_urls app) = [] then Inr []
      else Inl (UnboundLocalError ''canary_role''))"
  unfolding app_canaries_def
  by (cases "zip (get_app_names app) (get_app_urls app)") (auto split: prod.splits)

text \<open>
  Outside the primary region the stack is composed when the keys of every region are
  present and no application has a (name, URL) pair; with one such pair the constructor
  raises \<^verbatim>\<open>UnboundLocalError\<close>, since \<^verbatim>\<open>canary_role\<close> was never assigned.
\<close>

lemma cloud_infra_total_secondary:
  assumes "\<not> is_primary config" and "set regional_keys \<subseteq> dom config"
    and "\<And>app. app \<in> set apps \<Longrightarrow> zip (get_app_names app) (get_app_urls app) = []"
  shows "\<exists>stack. cloud_infra env config apps = Inr stack"
proof -
  from create_artifact_store_total [OF assms(2)] obtain bucket where
    b: "create_artifact_store config = Inr bucket" by blast
  from lookup_vpc_total [OF assms(2)] obtain v where
    v: "lookup_vpc env config = Inr v" by blast
  from create_log_group_total [OF assms(2)] obtain lg where
    l: "create_log_group config = Inr lg" by blast
  from create_canary_security_group_total [OF assms(2)] obtain sg pl where
    s: "create_canary_security_group config v = Inr (sg, pl)" by blast
  have "\<exists>cans. for_each (app_canaries env config v sg None (canary_script_data config)
      (bucket_name bucket)) apps = Inr cans"
    by (intro for_each_total) (simp add: app_canaries_unbound_value assms(3))
  then obtain cans where c: "for_each (app_canaries env config v sg None
      (canary_script_data config) (bucket_name bucket)) apps = Inr cans" ..
  show ?thesis
    unfolding cloud_infra_def
    by (simp add: b v l s c assms(1) Let_def)
qed

lemma cloud_infra_unbound:
  assumes "\<not> is_primary config" and "set regional_keys \<subseteq> dom config"
    and "app \<in> set apps" and "zip (get_app_names app) (get_app_urls app) \<noteq> []"
  shows "cloud_infra env config apps = Inl (UnboundLocalError ''canary_role'')"
proof -
  from create_artifact_store_total [OF assms(2)] obtain bucket where
    b: "create_artifact_store config = Inr bucket" by blast
  from lookup_vpc_total [OF assms(2)] obtain v where
    v: "lookup_vpc env config = Inr v" by blast
  from create_log_group_total [OF assms(2)] obtain lg where
    l: "create_log_group config = Inr lg" by blast
  from create_canary_security_group_total [OF assms(2)] obtain sg pl where
    s: "create_canary_security_group config v = Inr (sg, pl)" by blast
  have c: "for_each (app_canaries env config v sg None (canary_script_data config)
      (bucket_name bucket)) apps = Inl (UnboundLocalError ''canary_role'')"
  proof (rule for_each_first_error)
    fix x
    show "app_canaries env config v sg None (canary_script_data config) (bucket_name bucket) x =
        Inl (UnboundLocalError ''canary_role'') \<or>
      (\<exists>y. app_canaries env config v sg None (canary_script_data config) (bucket_name bucket) x =
        Inr y)"
      by (simp add: app_canaries_unbound_value)
  next
    from assms(3,4)
    show "\<exists>x \<in> set apps. app_canaries env config v sg None (canary_script_data config)
        (bucket_name bucket) x = Inl (UnboundLocalError ''canary_role'')"
      by (auto simp add: app_canaries_unbound_value)
  qed
  show ?thesis
    unfolding cloud_infra_def
    by (simp add: b v l s c assms(1) Let_def)
qed

section \<open>When the program reaches the synthesis\<close>

lemma program_keys_present:
  assumes "set program_keys \<subseteq> dom config"
  shows "''asset_prefix'' \<in> dom config" "''bootstrap_stack_version'' \<in> dom config"
    "''cost_center'' \<in> dom config"
  using assms by (simp_all add: program_keys_def)

lemma get_def_stack_synth_total:
  assumes "set regional_keys \<subseteq> dom config" and "set program_keys \<subseteq> dom config"
    and "''deployment_region'' \<in> dom config"
  shows "\<exists>s. get_def_stack_synth config = Inr s"
  using regional_keys_present [OF assms(1)] program_keys_present [OF assms(2)] assms(3)
  by (simp add: get_def_stack_synth_def deploy_role_def bind_res_eq_Inr fstr_eq_Inr
      keys_of_append keys_of_name_prefix)

lemma dom_region_context:
  "dom (region_context sect p r) = insert ''primary_region'' (insert ''deployment_region'' (dom sect))"
  by (auto simp add: region_context_def)

lemma compose_region_total:
  assumes "files fl b = Some sect"
    and "set regional_keys \<subseteq> dom sect" and "set program_keys \<subseteq> dom sect"
    and "rgn = p \<Longrightarrow> set primary_keys \<subseteq> dom sect"
    and "\<And>app. rgn \<noteq> p \<Longrightarrow> app \<in> set apps \<Longrightarrow> zip (get_app_names app) (get_app_urls app) = []"
  shows "\<exists>st. compose_region files cidr b apps p (rgn, fl) = Inr st"
proof -
  let ?config = "region_context sect p rgn"
  have r: "set regional_keys \<subseteq> dom ?config" and g: "set program_keys \<subseteq> dom ?config"
    and d: "''deployment_region'' \<in> dom ?config"
    using assms(2,3) by (auto simp add: dom_region_context)
  note k = regional_keys_present [OF r] program_keys_present [OF g]
  from get_def_stack_synth_total [OF r g d] obtain s where
    s: "get_def_stack_synth ?config = Inr s" by blast
  have ci: "\<exists>stack. cloud_infra env ?config apps = Inr stack" for env
  proof (cases "rgn = p")
    case True
    with assms(4) have "set primary_keys \<subseteq> dom ?config"
      by (auto simp add: dom_region_context)
    with True r show ?thesis
      by (intro cloud_infra_total_primary) (simp_all add: is_primary_region_context)
  next
    case False
    with r assms(5) show ?thesis
      by (intro cloud_infra_total_secondary) (simp_all add: is_primary_region_context)
  qed
  show ?thesis
    unfolding compose_region_def Let_def
    using k
    by (simp add: assms(1) s ci bind_res_eq_Inr fstr_eq_Inr keys_of_append keys_of_name_prefix)
qed

lemma main_total:
  assumes "\<And>rgn fl. (rgn, fl) \<in> set region_config_files \<Longrightarrow>
      \<exists>sect. files fl (getenv src_branch ''dev'') = Some sect \<and>
        set (regional_keys @ primary_keys @ program_keys) \<subseteq> dom sect"
    and "\<And>app. app \<in> set apps \<Longrightarrow> zip (get_app_names app) (get_app_urls app) = []"
  shows "\<exists>stacks. main files cidr src_branch apps = Inr stacks"
  unfolding main_def Let_def
proof (rule for_each_total)
  fix x
  assume x: "x \<in> set region_config_files"
  obtain rgn fl where rf: "x = (rgn, fl)" by (cases x)
  with assms(1) x obtain sect where
    "files fl (getenv src_branch ''dev'') = Some sect"
    "set (regional_keys @ primary_keys @ program_keys) \<subseteq> dom sect"
    by blast
  then show "\<exists>y. compose_region files cidr (getenv src_branch ''dev'') apps primary_region x = Inr y"
    unfolding rf by (intro compose_region_total) (auto simp add: assms(2))
qed

lemma compose_region_unbound:
  assumes "files fl b = Some sect"
    and "set regional_keys \<subseteq> dom sect" and "set program_keys \<subseteq> dom sect"
    and "rgn \<noteq> p"
    and "app \<in> set apps" and "zip (get_app_names app) (get_app_urls app) \<noteq> []"
  shows "compose_region files cidr b apps p (rgn, fl) = Inl (UnboundLocalError ''canary_role'')"
proof -
  let ?config = "region_context sect p rgn"
  have r: "set regional_keys \<subseteq> dom ?config" and g: "set program_keys \<subseteq> dom ?config"
    and d: "''deployment_region'' \<in> dom ?config"
    using assms(2,3) by (auto simp add: dom_region_context)
  note k = regional_keys_present [OF r] program_keys_present [OF g]
  from get_def_stack_synth_total [OF r g d] obtain s where
    s: "get_def_stack_synth ?config = Inr s" by blast
  have ci: "cloud_infra env ?config apps = Inl (UnboundLocalError ''canary_role'')" for env
    using assms(4) r assms(5,6)
    by (intro cloud_infra_unbound) (simp_all add: is_primary_region_context)
  show ?thesis
    unfolding compose_region_def Let_def
    using k
    by (simp add: assms(1) s ci fstr_present keys_of_append keys_of_name_prefix)
qed

lemma dev_profile_keys:
  "set regional_keys \<subseteq> dom dev_profile" "set primary_keys \<subseteq> dom dev_profile"
  "set program_keys \<subseteq> dom dev_profile"
  by (simp_all add: regional_keys_def naming_keys_def primary_keys_def program_keys_def
      dev_profile_def)

lemma canaries_primary:
  assumes "cloud_infra env config apps = Inr stack" and "is_primary config"
  shows "map cn_environment_variables (canaries stack) =
     concat (map (\<lambda>app. map (\<lambda>(n, u). [(''TARGET_URL'', u)])
       (zip (get_app_names app) (get_app_urls app))) apps)"
proof -
  from assms obtain bucket v cr sg cans fis_role az1 az2 lg ecs rds pl where
    c: "for_each (app_canaries env config v sg (Some cr) (canary_script_data config)
         (bucket_name bucket)) apps = Inr cans"
    and s: "stack = [Bucket bucket, Vpc v, LogGroup lg, Role fis_role, ExperimentTemplate az1,
         ExperimentTemplate az2] @
       map ExperimentTemplate (concat ecs) @ map ExperimentTemplate rds @
       [Role cr, SecurityGroup sg, PrefixList pl] @ map Canary (concat cans)"
    by (rule cloud_infra_primary)
  from s have cs: "canaries stack = concat cans"
    by (simp add: canaries_append canaries_map_Canary canaries_map_ExperimentTemplate)
  have one: "map cn_environment_variables cs =
      map (\<lambda>(n, u). [(''TARGET_URL'', u)]) (zip (get_app_names app) (get_app_urls app))"
    if "app_canaries env config v sg (Some cr) (canary_script_data config) (bucket_name bucket) app
      = Inr cs" for app cs
    using that unfolding app_canaries_def for_each_eq_Inr
    by (induction rule: list_all2_induct)
      (auto simp add: create_canary_def bind_res_eq_Inr)
  from c have "map (map cn_environment_variables) cans =
      map (\<lambda>app. map (\<lambda>(n, u). [(''TARGET_URL'', u)])
        (zip (get_app_names app) (get_app_urls app))) apps"
    unfolding for_each_eq_Inr
    by (induction rule: list_all2_induct) (simp_all add: one)
  then show ?thesis
    by (simp add: cs map_concat)
qed

text \<open>
  Claim C2, settled as a defect of the code. In the pass of \<^verbatim>\<open>us-east-1\<close>, which is not
  the primary region, with the \<^verbatim>\<open>dev\<close> profile and one application descriptor holding
  two URLs, the constructor raises \<^verbatim>\<open>UnboundLocalError\<close> for \<^verbatim>\<open>canary_role\<close> at the
  first canary, so no canary is composed there and the program never reaches the
  synthesis. In the pass of the primary region the same descriptor yields its two
  canaries.
\<close>

theorem canary_role_unbound_outside_primary:
  "cloud_infra (dev_env ''us-east-1'') (region_context dev_profile primary_region ''us-east-1'')
     [two_url_app] = Inl (UnboundLocalError ''canary_role'') \<and>
   main dev_files (\<lambda>v. ''10.0.0.0/16'') None [two_url_app] =
     Inl (UnboundLocalError ''canary_role'') \<and>
   (\<exists>stack. cloud_infra (dev_env primary_region)
        (region_context dev_profile primary_region primary_region) [two_url_app] = Inr stack \<and>
      map cn_environment_variables (canaries stack) =
        [[(''TARGET_URL'', ''https://web.example.com'')],
         [(''TARGET_URL'', ''https://api.example.com'')]])"
proof (intro conjI)
  have z: "zip (get_app_names two_url_app) (get_app_urls two_url_app) \<noteq> []"
    by (simp add: two_url_app_def)
  have r: "set regional_keys \<subseteq> dom (region_context dev_profile p rgn)" for p rgn
    using dev_profile_keys(1) by (auto simp add: dom_region_context)
  have q: "set primary_keys \<subseteq> dom (region_context dev_profile p rgn)" for p rgn
    using dev_profile_keys(2) by (auto simp add: dom_region_context)
  show "cloud_infra (dev_env ''us-east-1'')
      (region_context dev_profile primary_region ''us-east-1'') [two_url_app] =
      Inl (UnboundLocalError ''canary_role'')"
    using r z
    by (intro cloud_infra_unbound [where app = two_url_app])
      (simp_all add: is_primary_region_context primary_region_eq)
  have "\<exists>st. compose_region dev_files (\<lambda>v. ''10.0.0.0/16'') ''dev'' [two_url_app] primary_region
      (''eu-central-1'', ''resource.eu-central-1.config'') = Inr st"
    using dev_profile_keys
    by (intro compose_region_total [where sect = dev_profile])
      (simp_all add: dev_files_def primary_region_eq)
  moreover have "compose_region dev_files (\<lambda>v. ''10.0.0.0/16'') ''dev'' [two_url_app] primary_region
      (''us-east-1'', ''resource.us-east-1.config'') = Inl (UnboundLocalError ''canary_role'')"
    using dev_profile_keys z
    by (intro compose_region_unbound [where sect = dev_profile and app = two_url_app])
      (simp_all add: dev_files_def primary_region_eq)
  ultimately show "main dev_files (\<lambda>v. ''10.0.0.0/16'') None [two_url_app] =
      Inl (UnboundLocalError ''canary_role'')"
    by (auto simp add: main_def getenv_def region_config_files_def)
  from cloud_infra_total_primary [of "region_context dev_profile primary_region primary_region"
      "dev_env primary_region" "[two_url_app]"] r q
  obtain stack where s: "cloud_infra (dev_env primary_region)
      (region_context dev_profile primary_region primary_region) [two_url_app] = Inr stack"
    by (auto simp add: is_primary_region_context)
  from canaries_primary [OF s]
  have h: "map cn_environment_variables (canaries stack) =
        [[(''TARGET_URL'', ''https://web.example.com'')],
         [(''TARGET_URL'', ''https://api.example.com'')]]"
    by (simp add: is_primary_region_context two_url_app_def)
  show "\<exists>stack. cloud_infra (dev_env primary_region)
        (region_context dev_profile primary_region primary_region) [two_url_app] = Inr stack \<and>
      map cn_environment_variables (canaries stack) =
        [[(''TARGET_URL'', ''https://web.example.com'')],
         [(''TARGET_URL'', ''https://api.example.com'')]]"
    by (intro exI [of _ stack] conjI s h)
qed

section \<open>A missing key\<close>




section \<open>The topology gate\<close>

lemma list_all2_in_set2:
  "list_all2 P xs ys \<Longrightarrow> y \<in> set ys \<Longrightarrow> \<exists>x \<in> set xs. P x y"
  by (induction rule: list_all2_induct) auto

lemma first_of_distinct:
  assumes "distinct rs" and "rs \<noteq> []"
  shows "filter (\<lambda>r. r = hd rs) rs = [hd rs]"
proof (cases rs)
  case Nil
  with assms(2) show ?thesis by simp
next
  case (Cons x xs)
  with assms(1) have "filter (\<lambda>r. r = x) xs = []"
    by (auto simp add: filter_empty_conv)
  with Cons show ?thesis by simp
qed

lemma global_secondary:
  assumes "cloud_infra env config apps = Inr stack" and "\<not> is_primary config"
  shows "filter is_global stack = []"
  using assms by (rule cloud_infra_secondary) simp

lemma global_primary:
  assumes "cloud_infra env config apps = Inr stack" and "is_primary config"
  shows "\<exists>fis_role canary_role.
     Role fis_role \<in> set stack \<and> role_assumed_by fis_role = ''fis.amazonaws.com'' \<and>
     Role canary_role \<in> set stack \<and> role_assumed_by canary_role = ''lambda.amazonaws.com''"
proof -
  from assms obtain bucket fis_role cr rest1 rest2 where
    f: "create_fis_role env config = Inr fis_role"
    and c: "create_canary_role env config (bucket_name bucket) = Inr cr"
    and s: "Role fis_role \<in> set stack" "Role cr \<in> set stack"
    by (rule cloud_infra_primary) auto
  from f have "role_assumed_by fis_role = ''fis.amazonaws.com''"
    by (auto simp add: create_fis_role_def bind_res_eq_Inr)
  moreover from c have "role_assumed_by cr = ''lambda.amazonaws.com''"
    by (auto simp add: create_canary_role_def bind_res_eq_Inr)
  ultimately show ?thesis using s by blast
qed

lemma main_global:
  assumes "main files cidr src_branch apps = Inr stacks" and "st \<in> set stacks"
    and "filter is_global (st_constructs st) \<noteq> []"
  shows "st_region st = primary_region"
proof -
  from assms(1,2) obtain rf where
    "compose_region files cidr (getenv src_branch ''dev'') apps primary_region rf = Inr st"
    unfolding main_Inr by (blast dest: list_all2_in_set2)
  moreover obtain rgn fl where "rf = (rgn, fl)" by (cases rf)
  ultimately obtain sect acct where
    c: "cloud_infra \<lparr>account = acct, region = rgn, lookup_cidr = cidr\<rparr>
         (region_context sect primary_region rgn) apps = Inr (st_constructs st)"
    and r: "st_region st = rgn"
    by (auto elim: compose_region_Inr)
  from global_secondary [OF c] assms(3) have "is_primary (region_context sect primary_region rgn)"
    by blast
  with r show ?thesis by (simp add: is_primary_region_context)
qed

text \<open>
  Claim C1. The gate of the constructor compares the configuration's
  \<^verbatim>\<open>deployment_region\<close> with its \<^verbatim>\<open>primary_region\<close>; in the context that
  \<^verbatim>\<open>__main__\<close> builds for a region it holds exactly when that region is the primary
  one, the first of the region list. Over a list of distinct regions (the keys of a
  dictionary), and so over the program's own list, it holds for the first region and
  for no other. A stack composed where the gate fails holds no role and no experiment
  template; one composed where it holds has the role of the fault-injection service
  and the role of the canaries; and in a manifest the program writes, only the stack
  of the primary region holds roles or experiment templates.
\<close>

theorem topology_gate:
  "(config ''deployment_region'' = Some d \<longrightarrow> config ''primary_region'' = Some p \<longrightarrow>
      (is_primary config \<longleftrightarrow> d = p)) \<and>
   (is_primary (region_context sect p r) \<longleftrightarrow> r = p) \<and>
   primary_region = regions ! 0 \<and>
   (distinct rs \<longrightarrow> rs \<noteq> [] \<longrightarrow>
      filter (\<lambda>r. is_primary (region_context (sect_of r) (hd rs) r)) rs = [hd rs]) \<and>
   filter (\<lambda>r. is_primary (region_context (sect_of r) primary_region r)) regions =
     [primary_region] \<and>
   (cloud_infra env config apps = Inr stack \<longrightarrow> \<not> is_primary config \<longrightarrow>
      filter is_global stack = []) \<and>
   (cloud_infra env config apps = Inr stack \<longrightarrow> is_primary config \<longrightarrow>
      (\<exists>fis_role canary_role.
         Role fis_role \<in> set stack \<and> role_assumed_by fis_role = ''fis.amazonaws.com'' \<and>
         Role canary_role \<in> set stack \<and>
         role_assumed_by canary_role = ''lambda.amazonaws.com'')) \<and>
   (main files cidr src_branch apps = Inr stacks \<longrightarrow>
      (\<forall>st \<in> set stacks. filter is_global (st_constructs st) \<noteq> [] \<longrightarrow>
         st_region st = primary_region))"
proof (intro conjI impI ballI)
  show "is_primary config \<longleftrightarrow> d = p"
    if "config ''deployment_region'' = Some d" "config ''primary_region'' = Some p"
    using that by (simp add: is_primary_def)
  show "is_primary (region_context sect p r) \<longleftrightarrow> r = p"
    by (rule is_primary_region_context)
  show "primary_region = regions ! 0"
    by (simp add: primary_region_def regions_eq)
  show "filter (\<lambda>r. is_primary (region_context (sect_of r) (hd rs) r)) rs = [hd rs]"
    if "distinct rs" "rs \<noteq> []"
    using that by (simp add: is_primary_region_context first_of_distinct)
  show "filter (\<lambda>r. is_primary (region_context (sect_of r) primary_region r)) regions =
      [primary_region]"
    by (simp add: is_primary_region_context primary_region_eq regions_eq)
  show "filter is_global stack = []"
    if "cloud_infra env config apps = Inr stack" "\<not> is_primary config"
    using that by (rule global_secondary)
  show "\<exists>fis_role canary_role.
      Role fis_role \<in> set stack \<and> role_assumed_by fis_role = ''fis.amazonaws.com'' \<and>
      Role canary_role \<in> set stack \<and> role_assumed_by canary_role = ''lambda.amazonaws.com''"
    if "cloud_infra env config apps = Inr stack" "is_primary config"
    using that by (rule global_primary)
  show "st_region st = primary_region"
    if "main files cidr src_branch apps = Inr stacks" "st \<in> set stacks"
      "filter is_global (st_constructs st) \<noteq> []" for st
    using that by (rule main_global)
qed

theorem topology_gate_witness:
  "region_context dev_profile primary_region ''us-east-1'' ''deployment_region'' =
     Some ''us-east-1'' \<and>
   region_context dev_profile primary_region ''us-east-1'' ''primary_region'' =
     Some ''eu-central-1'' \<and>
   \<not> is_primary (region_context dev_profile primary_region ''us-east-1'') \<and>
   is_primary (region_context dev_profile primary_region ''eu-central-1'') \<and>
   distinct regions \<and> regions \<noteq> [] \<and>
   filter (\<lambda>r. is_primary (region_context dev_profile (hd regions) r)) regions =
     [''eu-central-1''] \<and>
   (\<exists>stack. cloud_infra (dev_env ''us-east-1'')
        (region_context dev_profile primary_region ''us-east-1'') [] = Inr stack \<and>
      filter is_global stack = []) \<and>
   (\<exists>stack fis_role canary_role. cloud_infra (dev_env ''eu-central-1'')
        (region_context dev_profile primary_region ''eu-central-1'') [two_url_app] = Inr stack \<and>
      Role fis_role \<in> set stack \<and> Role canary_role \<in> set stack) \<and>
   (\<exists>stacks. main dev_files (\<lambda>v. ''10.0.0.0/16'') None [] = Inr stacks \<and>
      list_all (\<lambda>st. filter is_global (st_constructs st) = [] \<or>
        st_region st = ''eu-central-1'') stacks)"
proof -
  let ?us = "region_context dev_profile primary_region ''us-east-1''"
  let ?eu = "region_context dev_profile primary_region ''eu-central-1''"
  have r: "set regional_keys \<subseteq> dom (region_context dev_profile p rgn)" for p rgn
    using dev_profile_keys(1) by (auto simp add: dom_region_context)
  have q: "set primary_keys \<subseteq> dom (region_context dev_profile p rgn)" for p rgn
    using dev_profile_keys(2) by (auto simp add: dom_region_context)
  have d: "?us ''deployment_region'' = Some ''us-east-1''"
    "?us ''primary_region'' = Some ''eu-central-1''"
    by (simp_all add: primary_region_eq)
  have g: "\<not> is_primary ?us" "is_primary ?eu"
    using topology_gate [where sect = dev_profile and p = primary_region and r = "''us-east-1''",
        THEN conjunct2, THEN conjunct1]
      topology_gate [where sect = dev_profile and p = primary_region and r = "''eu-central-1''",
        THEN conjunct2, THEN conjunct1]
    by (simp_all add: primary_region_eq)
  have l: "distinct regions" "regions \<noteq> []"
    by (simp_all add: regions_eq)
  with topology_gate [where rs = regions and sect_of = "\<lambda>r. dev_profile",
      THEN conjunct2, THEN conjunct2, THEN conjunct2, THEN conjunct1]
  have f: "filter (\<lambda>r. is_primary (region_context dev_profile (hd regions) r)) regions =
      [''eu-central-1'']"
    by (simp add: regions_eq)
  have "\<exists>stack. cloud_infra (dev_env ''us-east-1'') ?us [] = Inr stack"
    by (rule cloud_infra_total_secondary [OF g(1) r]) simp
  then obtain stack_us where
    u: "cloud_infra (dev_env ''us-east-1'') ?us [] = Inr stack_us" ..
  note u' = topology_gate [where config = ?us and env = "dev_env ''us-east-1''" and apps = "[]"
      and stack = stack_us, THEN conjunct2, THEN conjunct2, THEN conjunct2, THEN conjunct2, THEN conjunct2, THEN conjunct1, rule_format, OF u g(1)]
  have "\<exists>stack. cloud_infra (dev_env ''eu-central-1'') ?eu [two_url_app] = Inr stack"
    by (rule cloud_infra_total_primary [OF g(2) r q])
  then obtain stack_eu where
    e: "cloud_infra (dev_env ''eu-central-1'') ?eu [two_url_app] = Inr stack_eu" ..
  from topology_gate [where config = ?eu and env = "dev_env ''eu-central-1''"
      and apps = "[two_url_app]" and stack = stack_eu, THEN conjunct2, THEN conjunct2, THEN conjunct2, THEN conjunct2, THEN conjunct2, THEN conjunct2, THEN conjunct1, rule_format,
      OF e g(2)]
  obtain fis_role canary_role where
    e': "Role fis_role \<in> set stack_eu" "Role canary_role \<in> set stack_eu"
    by auto
  have "\<exists>stacks. main dev_files (\<lambda>v. ''10.0.0.0/16'') None [] = Inr stacks"
    using dev_profile_keys by (intro main_total) (simp_all add: dev_files_def getenv_def)
  then obtain stacks where m: "main dev_files (\<lambda>v. ''10.0.0.0/16'') None [] = Inr stacks" ..
  note topology_gate [where files = dev_files and cidr = "\<lambda>v. ''10.0.0.0/16''"
      and src_branch = None and apps = "[]" and stacks = stacks, THEN conjunct2, THEN conjunct2, THEN conjunct2, THEN conjunct2, THEN conjunct2, THEN conjunct2, THEN conjunct2, rule_format, OF m]
  then have m': "list_all (\<lambda>st. filter is_global (st_constructs st) = [] \<or>
        st_region st = ''eu-central-1'') stacks"
    unfolding list_all_iff primary_region_eq by blast
  have 1: "\<exists>stack. cloud_infra (dev_env ''us-east-1'') ?us [] = Inr stack \<and>
      filter is_global stack = []"
    using u u' by (intro exI [of _ stack_us] conjI)
  have 2: "\<exists>stack fis_role canary_role. cloud_infra (dev_env ''eu-central-1'') ?eu
        [two_url_app] = Inr stack \<and>
      Role fis_role \<in> set stack \<and> Role canary_role \<in> set stack"
    using e e' by (intro exI [of _ stack_eu] exI [of _ fis_role] exI [of _ canary_role] conjI)
  have 3: "\<exists>stacks. main dev_files (\<lambda>v. ''10.0.0.0/16'') None [] = Inr stacks \<and>
      list_all (\<lambda>st. filter is_global (st_constructs st) = [] \<or>
        st_region st = ''eu-central-1'') stacks"
    using m m' by (intro exI [of _ stacks] conjI)
  from d g l f 1 2 3 show ?thesis by (intro conjI)
qed

section \<open>The settings the experiments share\<close>

lemma drain_shape:
  assumes "create_fis_ecs_cluster_drain_experiment env config rl lg p = Inr t"
  shows "action_ids t = [''aws:ecs:drain-container-instances'']" and "fis_common lg t"
  using assms
  by (auto simp add: create_fis_ecs_cluster_drain_experiment_def bind_res_eq_Inr
      action_ids_def fis_common_def)

lemma cpustress_shape:
  assumes "create_fis_ecs_task_cpustress_experiment config rl lg a p = Inr t"
  shows "action_ids t = [''aws:ecs:task-cpu-stress'']" and "fis_common lg t"
  using assms
  by (auto simp add: create_fis_ecs_task_cpustress_experiment_def bind_res_eq_Inr
      action_ids_def fis_common_def)

lemma iostress_shape:
  assumes "create_fis_ecs_task_iostress_experiment config rl lg a p = Inr t"
  shows "action_ids t = [''aws:ecs:task-io-stress'']" and "fis_common lg t"
  using assms
  by (auto simp add: create_fis_ecs_task_iostress_experiment_def bind_res_eq_Inr
      action_ids_def fis_common_def)

text \<open>The templates of a composed stack share the log group of the stack.\<close>

lemma stack_templates_common:
  assumes "cloud_infra env config apps = Inr stack"
  shows "\<exists>lg. [c \<leftarrow> stack. \<exists>l. c = LogGroup l] = [LogGroup lg] \<and>
     (\<forall>t \<in> set (templates stack). fis_common lg t)"
proof (cases "is_primary config")
  case True
  with assms obtain bucket v lg fis_role az1 az2 ecs rds cr sg pl cans sl1 n1 sl2 n2 ss ps dbs
    where a: "create_fis_network_subnet_experiment env config sl1 ''az1'' fis_role lg n1 dbs
        = Inr az1"
      "create_fis_network_subnet_experiment env config sl2 ''az2'' fis_role lg n2 dbs = Inr az2"
    and e: "list_all2 (\<lambda>s ts. list_all2 (\<lambda>p t.
           create_fis_ecs_task_stop_experiment config fis_role lg s p = Inr t)
         (split_on CHR '','' ps) ts) (split_on CHR '','' ss) ecs"
    and r: "list_all2 (\<lambda>d t. create_fis_rds_failover_experiment env config fis_role lg d = Inr t)
         (split_on CHR '','' dbs) rds"
    and s: "stack = [Bucket bucket, Vpc v, LogGroup lg, Role fis_role, ExperimentTemplate az1,
           ExperimentTemplate az2] @
         map ExperimentTemplate (concat ecs) @ map ExperimentTemplate rds @
         [Role cr, SecurityGroup sg, PrefixList pl] @ map Canary (concat cans)"
    by (rule cloud_infra_primary)
  from s have t: "templates stack = az1 # az2 # concat ecs @ rds"
    by (simp add: templates_append templates_map_ExperimentTemplate templates_map_Canary)
  from s have l: "[c \<leftarrow> stack. \<exists>l. c = LogGroup l] = [LogGroup lg]"
    by (simp add: filter_empty_conv image_iff)
  from a(1) have "fis_common lg az1" by (rule az_shape)
  moreover from a(2) have "fis_common lg az2" by (rule az_shape)
  moreover from e have "\<forall>t \<in> set (concat ecs). fis_common lg t"
    by (rule nested_loop_all) (rule task_stop_shape)
  moreover from r have "\<forall>t \<in> set rds. fis_common lg t"
    by (rule loop_all) (rule rds_shape)
  ultimately have "\<forall>t \<in> set (templates stack). fis_common lg t"
    by (auto simp add: t)
  with l show ?thesis by blast
next
  case False
  with assms obtain bucket v lg sg pl where
    s: "stack = [Bucket bucket, Vpc v, LogGroup lg, SecurityGroup sg, PrefixList pl]"
    by (rule cloud_infra_secondary)
  then show ?thesis by simp
qed

text \<open>
  Claim C8. Every template that an experiment composer returns (the three the stack
  uses: subnet failure of an availability zone, task stop, database failover; and the
  three it does not: cluster drain, task CPU stress, task IO stress) targets a single
  account, fails when a target resolves to nothing, logs to the log group it was given,
  and has the one stop condition with source \<^verbatim>\<open>none\<close>. In a composed stack that log
  group is the one log group of the stack, for every template of the stack.
\<close>

theorem experiments_share_settings:
  "(create_fis_network_subnet_experiment env config sl tn rl lg az dbs = Inr t \<longrightarrow>
      fis_common lg t) \<and>
   (create_fis_ecs_task_stop_experiment config rl lg a p = Inr t \<longrightarrow> fis_common lg t) \<and>
   (create_fis_rds_failover_experiment env config rl lg d = Inr t \<longrightarrow> fis_common lg t) \<and>
   (create_fis_ecs_cluster_drain_experiment env config rl lg p = Inr t \<longrightarrow> fis_common lg t) \<and>
   (create_fis_ecs_task_cpustress_experiment config rl lg a p = Inr t \<longrightarrow> fis_common lg t) \<and>
   (create_fis_ecs_task_iostress_experiment config rl lg a p = Inr t \<longrightarrow> fis_common lg t) \<and>
   (cloud_infra env config apps = Inr stack \<longrightarrow>
      (\<exists>lg. [c \<leftarrow> stack. \<exists>l. c = LogGroup l] = [LogGroup lg] \<and>
         (\<forall>t \<in> set (templates stack). fis_common lg t)))"
  by (intro conjI impI az_shape task_stop_shape rds_shape drain_shape cpustress_shape
      iostress_shape stack_templates_common)

section \<open>The task-stop experiments\<close>





lemma task_stop_templates_primary:
  assumes "cloud_infra env config apps = Inr stack" and "is_primary config"
  shows "\<exists>ss ps. config ''ecs_services'' = Some ss \<and> config ''ecs_taks_percents'' = Some ps \<and>
     map et_id (task_stop_templates stack) =
       map (\<lambda>(s, p). task_stop_name config s p)
         (List.product (split_on CHR '','' ss) (split_on CHR '','' ps))"
proof -
  from assms obtain bucket v lg fis_role az1 az2 ecs rds cr sg pl cans sl1 n1 sl2 n2 ss ps dbs
    where k: "config ''ecs_services'' = Some ss" "config ''ecs_taks_percents'' = Some ps"
    and a: "create_fis_network_subnet_experiment env config sl1 ''az1'' fis_role lg n1 dbs
        = Inr az1"
      "create_fis_network_subnet_experiment env config sl2 ''az2'' fis_role lg n2 dbs = Inr az2"
    and e: "list_all2 (\<lambda>s ts. list_all2 (\<lambda>p t.
           create_fis_ecs_task_stop_experiment config fis_role lg s p = Inr t)
         (split_on CHR '','' ps) ts) (split_on CHR '','' ss) ecs"
    and r: "list_all2 (\<lambda>d t. create_fis_rds_failover_experiment env config fis_role lg d = Inr t)
         (split_on CHR '','' dbs) rds"
    and s: "stack = [Bucket bucket, Vpc v, LogGroup lg, Role fis_role, ExperimentTemplate az1,
           ExperimentTemplate az2] @
         map ExperimentTemplate (concat ecs) @ map ExperimentTemplate rds @
         [Role cr, SecurityGroup sg, PrefixList pl] @ map Canary (concat cans)"
    by (rule cloud_infra_primary)
  from s have t: "templates stack = az1 # az2 # concat ecs @ rds"
    by (simp add: templates_append templates_map_ExperimentTemplate templates_map_Canary)
  from a have z: "\<not> is_ecs_task_stop az1" "\<not> is_ecs_task_stop az2"
    by (simp_all add: is_ecs_task_stop_def az_shape(2))
  from e have "\<forall>t \<in> set (concat ecs). is_ecs_task_stop t"
    by (rule nested_loop_all) (simp add: is_ecs_task_stop_def task_stop_shape(2))
  then have f1: "filter is_ecs_task_stop (concat ecs) = concat ecs"
    by (simp only: filter_True)
  from r have "\<forall>t \<in> set rds. \<not> is_ecs_task_stop t"
    by (rule loop_all) (simp add: is_ecs_task_stop_def rds_shape(2))
  then have f2: "filter is_ecs_task_stop rds = []"
    by (simp add: filter_empty_conv)
  from t z f1 f2 have "task_stop_templates stack = concat ecs"
    by (simp add: task_stop_templates_def)
  moreover from e have "map et_id (concat ecs) =
      map (\<lambda>(s, p). task_stop_name config s p)
        (List.product (split_on CHR '','' ss) (split_on CHR '','' ps))"
    by (rule nested_loop_map) (simp add: task_stop_name_def task_stop_shape(1))
  ultimately show ?thesis using k by simp
qed


lemma main_stack:
  assumes "main files cidr src_branch apps = Inr stacks" and "st \<in> set stacks"
  obtains sect acct where
    "cloud_infra \<lparr>account = acct, region = st_region st, lookup_cidr = cidr\<rparr>
       (region_context sect primary_region (st_region st)) apps = Inr (st_constructs st)"
proof -
  from assms(1,2) obtain rf where
    "compose_region files cidr (getenv src_branch ''dev'') apps primary_region rf = Inr st"
    unfolding main_Inr by (blast dest: list_all2_in_set2)
  moreover obtain rgn fl where "rf = (rgn, fl)" by (cases rf)
  ultimately show thesis
    by (auto elim!: compose_region_Inr intro: that)
qed


lemma dev_context_keys:
  "set regional_keys \<subseteq> dom (region_context dev_profile p rgn)"
  "set primary_keys \<subseteq> dom (region_context dev_profile p rgn)"
  using dev_profile_keys by (auto simp add: dom_region_context)




lemma templates_count:
  assumes "cloud_infra env config apps = Inr stack" and "is_primary config"
  shows "\<exists>ss ps dbs. config ''ecs_services'' = Some ss \<and> config ''ecs_taks_percents'' = Some ps \<and>
     config ''db_clusters'' = Some dbs \<and>
     length (templates stack) =
       2 + length (split_on CHR '','' ss) * length (split_on CHR '','' ps) +
       length (split_on CHR '','' dbs)"
proof -
  from assms obtain bucket v lg fis_role az1 az2 ecs rds cr sg pl cans ss ps dbs
    where k: "config ''db_clusters'' = Some dbs" "config ''ecs_services'' = Some ss"
      "config ''ecs_taks_percents'' = Some ps"
    and e: "list_all2 (\<lambda>s ts. list_all2 (\<lambda>p t.
           create_fis_ecs_task_stop_experiment config fis_role lg s p = Inr t)
         (split_on CHR '','' ps) ts) (split_on CHR '','' ss) ecs"
    and r: "list_all2 (\<lambda>d t. create_fis_rds_failover_experiment env config fis_role lg d = Inr t)
         (split_on CHR '','' dbs) rds"
    and s: "stack = [Bucket bucket, Vpc v, LogGroup lg, Role fis_role, ExperimentTemplate az1,
           ExperimentTemplate az2] @
         map ExperimentTemplate (concat ecs) @ map ExperimentTemplate rds @
         [Role cr, SecurityGroup sg, PrefixList pl] @ map Canary (concat cans)"
    by (rule cloud_infra_primary)
  from s have t: "templates stack = az1 # az2 # concat ecs @ rds"
    by (simp add: templates_append templates_map_ExperimentTemplate templates_map_Canary)
  from e have "map (\<lambda>t. ()) (concat ecs) =
      map (\<lambda>(s, p). ()) (List.product (split_on CHR '','' ss) (split_on CHR '','' ps))"
    by (rule nested_loop_map) simp
  then have "length (map (\<lambda>t. ()) (concat ecs)) =
      length (map (\<lambda>(s, p). ()) (List.product (split_on CHR '','' ss) (split_on CHR '','' ps)))"
    by (rule arg_cong)
  then have le: "length (concat ecs) =
      length (split_on CHR '','' ss) * length (split_on CHR '','' ps)"
    by simp
  from r have lr: "length rds = length (split_on CHR '','' dbs)"
    by (simp add: list_all2_lengthD)
  from k t le lr show ?thesis by simp
qed

lemma dev_log_group:
  "create_log_group (region_context dev_profile p rgn) = Inr lg \<Longrightarrow>
     log_group_arn lg = ''${Token[sw-mra-dev-chaos-fis-logs-main-a.Arn]}''"
  by (auto simp add: create_log_group_def bind_res_eq_Inr fstr_eq_Inr log_group_arn_def
      token_def name_prefix_def cval_def region_context_def dev_profile_def)

lemma create_fis_ecs_task_cpustress_experiment_total:
  assumes "set regional_keys \<subseteq> dom config"
  shows "\<exists>t. create_fis_ecs_task_cpustress_experiment config rl lg a p = Inr t"
  using regional_keys_present [OF assms]
  by (simp add: create_fis_ecs_task_cpustress_experiment_def bind_res_eq_Inr fstr_eq_Inr
      keys_of_append keys_of_name_prefix)

lemma create_fis_ecs_task_iostress_experiment_total:
  assumes "set regional_keys \<subseteq> dom config"
  shows "\<exists>t. create_fis_ecs_task_iostress_experiment config rl lg a p = Inr t"
  using regional_keys_present [OF assms]
  by (simp add: create_fis_ecs_task_iostress_experiment_def bind_res_eq_Inr fstr_eq_Inr
      keys_of_append keys_of_name_prefix)

lemma create_fis_ecs_cluster_drain_experiment_total:
  assumes "set regional_keys \<subseteq> dom config"
  shows "\<exists>t. create_fis_ecs_cluster_drain_experiment env config rl lg p = Inr t"
  using regional_keys_present [OF assms]
  by (simp add: create_fis_ecs_cluster_drain_experiment_def bind_res_eq_Inr fstr_eq_Inr
      keys_of_append keys_of_name_prefix)

theorem experiments_share_settings_witness:
  "(\<exists>stack lg. cloud_infra (dev_env ''eu-central-1'')
       (region_context dev_profile primary_region ''eu-central-1'') [two_url_app] = Inr stack \<and>
     [c \<leftarrow> stack. \<exists>l. c = LogGroup l] = [LogGroup lg] \<and>
     length (templates stack) = 7 \<and>
     list_all (fis_common lg) (templates stack)) \<and>
   (\<exists>rl lg t. create_fis_role (dev_env ''eu-central-1'')
         (region_context dev_profile primary_region ''eu-central-1'') = Inr rl \<and>
      create_log_group (region_context dev_profile primary_region ''eu-central-1'') = Inr lg \<and>
      create_fis_ecs_task_stop_experiment
        (region_context dev_profile primary_region ''eu-central-1'') rl lg ''svc-a'' ''25'' =
        Inr t \<and>
      eo_account_targeting (et_experiment_options t) = ''single-account'' \<and>
      eo_empty_target_resolution_mode (et_experiment_options t) = ''fail'' \<and>
      lc_cloud_watch_logs_configuration (et_log_configuration t) =
        [(''LogGroupArn'', ''${Token[sw-mra-dev-chaos-fis-logs-main-a.Arn]}'')] \<and>
      et_stop_conditions t = [[(''source'', ''none'')]]) \<and>
   (\<exists>rl lg.
      (\<exists>t. create_fis_network_subnet_experiment (dev_env ''eu-central-1'') dev_profile
            ''subnet-1,subnet-2'' ''az1'' rl lg ''eu-central-1a'' ''db1'' = Inr t \<and>
         fis_common lg t) \<and>
      (\<exists>t. create_fis_rds_failover_experiment (dev_env ''eu-central-1'') dev_profile rl lg
            ''db1'' = Inr t \<and> fis_common lg t) \<and>
      (\<exists>t. create_fis_ecs_cluster_drain_experiment (dev_env ''eu-central-1'') dev_profile rl lg
            ''25'' = Inr t \<and> fis_common lg t) \<and>
      (\<exists>t. create_fis_ecs_task_cpustress_experiment dev_profile rl lg ''svc-a'' ''25'' =
            Inr t \<and> fis_common lg t) \<and>
      (\<exists>t. create_fis_ecs_task_iostress_experiment dev_profile rl lg ''svc-a'' ''25'' =
            Inr t \<and> fis_common lg t))"
proof (intro conjI)
  let ?eu = "region_context dev_profile primary_region ''eu-central-1''"
  have g: "is_primary ?eu"
    by (simp add: is_primary_region_context primary_region_eq)
  have "\<exists>stack. cloud_infra (dev_env ''eu-central-1'') ?eu [two_url_app] = Inr stack"
    by (rule cloud_infra_total_primary [OF g dev_context_keys])
  then obtain stack where
    s: "cloud_infra (dev_env ''eu-central-1'') ?eu [two_url_app] = Inr stack" ..
  from experiments_share_settings [where env = "dev_env ''eu-central-1''" and config = ?eu
      and apps = "[two_url_app]" and stack = stack, THEN conjunct2, THEN conjunct2,
      THEN conjunct2, THEN conjunct2, THEN conjunct2, THEN conjunct2, rule_format, OF s]
  obtain lg where l: "[c \<leftarrow> stack. \<exists>l. c = LogGroup l] = [LogGroup lg]"
    and c: "\<forall>t \<in> set (templates stack). fis_common lg t"
    by blast
  from c have c': "list_all (fis_common lg) (templates stack)"
    by (simp add: list_all_iff)
  from templates_count [OF s g] have n: "length (templates stack) = 7"
    by (auto simp add: region_context_def dev_profile_def)
  show "\<exists>stack lg. cloud_infra (dev_env ''eu-central-1'') ?eu [two_url_app] = Inr stack \<and>
     [c \<leftarrow> stack. \<exists>l. c = LogGroup l] = [LogGroup lg] \<and>
     length (templates stack) = 7 \<and>
     list_all (fis_common lg) (templates stack)"
    using s l n c' by (intro exI [of _ stack] exI [of _ lg] conjI)
  from create_fis_role_total [OF dev_context_keys(1)] obtain rl where
    r: "create_fis_role (dev_env ''eu-central-1'') ?eu = Inr rl" by blast
  from create_log_group_total [OF dev_context_keys(1)] obtain lg' where
    l': "create_log_group ?eu = Inr lg'" by blast
  from create_fis_ecs_task_stop_experiment_total [OF dev_context_keys(1)] obtain t where
    t: "create_fis_ecs_task_stop_experiment ?eu rl lg' ''svc-a'' ''25'' = Inr t" by blast
  from experiments_share_settings [where config = ?eu and rl = rl and lg = lg'
      and a = "''svc-a''" and p = "''25''" and t = t, THEN conjunct2, THEN conjunct1,
      rule_format, OF t]
  have f: "fis_common lg' t" .
  from f have 1: "eo_account_targeting (et_experiment_options t) = ''single-account''"
    and 2: "eo_empty_target_resolution_mode (et_experiment_options t) = ''fail''"
    and 3: "lc_cloud_watch_logs_configuration (et_log_configuration t) =
        [(''LogGroupArn'', ''${Token[sw-mra-dev-chaos-fis-logs-main-a.Arn]}'')]"
    and 4: "et_stop_conditions t = [[(''source'', ''none'')]]"
    unfolding fis_common_def dev_log_group [OF l'] by simp_all
  show "\<exists>rl lg t. create_fis_role (dev_env ''eu-central-1'') ?eu = Inr rl \<and>
      create_log_group ?eu = Inr lg \<and>
      create_fis_ecs_task_stop_experiment ?eu rl lg ''svc-a'' ''25'' = Inr t \<and>
      eo_account_targeting (et_experiment_options t) = ''single-account'' \<and>
      eo_empty_target_resolution_mode (et_experiment_options t) = ''fail'' \<and>
      lc_cloud_watch_logs_configuration (et_log_configuration t) =
        [(''LogGroupArn'', ''${Token[sw-mra-dev-chaos-fis-logs-main-a.Arn]}'')] \<and>
      et_stop_conditions t = [[(''source'', ''none'')]]"
    using r l' t 1 2 3 4 by (intro exI [of _ rl] exI [of _ lg'] exI [of _ t] conjI)
  fix rl0 :: role and lg0 :: log_group
  note k = dev_profile_keys(1)
  from create_fis_network_subnet_experiment_total [OF k] obtain ta where
    ta: "create_fis_network_subnet_experiment (dev_env ''eu-central-1'') dev_profile
      ''subnet-1,subnet-2'' ''az1'' rl0 lg0 ''eu-central-1a'' ''db1'' = Inr ta" by blast
  from create_fis_rds_failover_experiment_total [OF k] obtain tr where
    tr: "create_fis_rds_failover_experiment (dev_env ''eu-central-1'') dev_profile rl0 lg0
      ''db1'' = Inr tr" by blast
  from create_fis_ecs_cluster_drain_experiment_total [OF k] obtain td where
    td: "create_fis_ecs_cluster_drain_experiment (dev_env ''eu-central-1'') dev_profile rl0 lg0
      ''25'' = Inr td" by blast
  from create_fis_ecs_task_cpustress_experiment_total [OF k] obtain tc where
    tc: "create_fis_ecs_task_cpustress_experiment dev_profile rl0 lg0 ''svc-a'' ''25'' = Inr tc"
    by blast
  from create_fis_ecs_task_iostress_experiment_total [OF k] obtain ti where
    ti: "create_fis_ecs_task_iostress_experiment dev_profile rl0 lg0 ''svc-a'' ''25'' = Inr ti"
    by blast
  note a = experiments_share_settings [where config = dev_profile and rl = rl0 and lg = lg0,
      THEN conjunct1, rule_format, OF ta]
  note b = experiments_share_settings [where config = dev_profile and rl = rl0 and lg = lg0,
      THEN conjunct2, THEN conjunct2, THEN conjunct1, rule_format, OF tr]
  note c = experiments_share_settings [where config = dev_profile and rl = rl0 and lg = lg0,
      THEN conjunct2, THEN conjunct2, THEN conjunct2, THEN conjunct1, rule_format, OF td]
  note d = experiments_share_settings [where config = dev_profile and rl = rl0 and lg = lg0,
      THEN conjunct2, THEN conjunct2, THEN conjunct2, THEN conjunct2, THEN conjunct1,
      rule_format, OF tc]
  note e = experiments_share_settings [where config = dev_profile and rl = rl0 and lg = lg0,
      THEN conjunct2, THEN conjunct2, THEN conjunct2, THEN conjunct2, THEN conjunct2,
      THEN conjunct1, rule_format, OF ti]
  from ta a tr b td c tc d ti e
  show "\<exists>rl lg.
      (\<exists>t. create_fis_network_subnet_experiment (dev_env ''eu-central-1'') dev_profile
            ''subnet-1,subnet-2'' ''az1'' rl lg ''eu-central-1a'' ''db1'' = Inr t \<and>
         fis_common lg t) \<and>
      (\<exists>t. create_fis_rds_failover_experiment (dev_env ''eu-central-1'') dev_profile rl lg
            ''db1'' = Inr t \<and> fis_common lg t) \<and>
      (\<exists>t. create_fis_ecs_cluster_drain_experiment (dev_env ''eu-central-1'') dev_profile rl lg
            ''25'' = Inr t \<and> fis_common lg t) \<and>
      (\<exists>t. create_fis_ecs_task_cpustress_experiment dev_profile rl lg ''svc-a'' ''25'' =
            Inr t \<and> fis_common lg t) \<and>
      (\<exists>t. create_fis_ecs_task_iostress_experiment dev_profile rl lg ''svc-a'' ''25'' =
            Inr t \<and> fis_common lg t)"
    by (intro exI [of _ rl0] exI [of _ lg0] conjI exI [of _ ta] exI [of _ tr] exI [of _ td]
        exI [of _ tc] exI [of _ ti])
qed

section \<open>The experiments that are not composed\<close>

lemma stack_template_kinds:
  assumes "cloud_infra env config apps = Inr stack" and "t \<in> set (templates stack)"
  shows "action_ids t \<in>
     {[''aws:network:disrupt-connectivity'', ''aws:rds:failover-db-cluster'',
       ''aws:elasticache:replicationgroup-interrupt-az-power'', ''aws:fis:wait''],
      [''aws:ecs:stop-task''], [''aws:rds:failover-db-cluster'']}"
proof (cases "is_primary config")
  case True
  with assms(1) obtain bucket v lg fis_role az1 az2 ecs rds cr sg pl cans sl1 n1 sl2 n2 ss ps dbs
    where a: "create_fis_network_subnet_experiment env config sl1 ''az1'' fis_role lg n1 dbs
        = Inr az1"
      "create_fis_network_subnet_experiment env config sl2 ''az2'' fis_role lg n2 dbs = Inr az2"
    and e: "list_all2 (\<lambda>s ts. list_all2 (\<lambda>p t.
           create_fis_ecs_task_stop_experiment config fis_role lg s p = Inr t)
         (split_on CHR '','' ps) ts) (split_on CHR '','' ss) ecs"
    and r: "list_all2 (\<lambda>d t. create_fis_rds_failover_experiment env config fis_role lg d = Inr t)
         (split_on CHR '','' dbs) rds"
    and s: "stack = [Bucket bucket, Vpc v, LogGroup lg, Role fis_role, ExperimentTemplate az1,
           ExperimentTemplate az2] @
         map ExperimentTemplate (concat ecs) @ map ExperimentTemplate rds @
         [Role cr, SecurityGroup sg, PrefixList pl] @ map Canary (concat cans)"
    by (rule cloud_infra_primary)
  from s have t: "templates stack = az1 # az2 # concat ecs @ rds"
    by (simp add: templates_append templates_map_ExperimentTemplate templates_map_Canary)
  from e have "\<forall>t \<in> set (concat ecs). action_ids t = [''aws:ecs:stop-task'']"
    by (rule nested_loop_all) (rule task_stop_shape)
  moreover from r have "\<forall>t \<in> set rds. action_ids t = [''aws:rds:failover-db-cluster'']"
    by (rule loop_all) (rule rds_shape)
  moreover note az_shape(2) [OF a(1)] az_shape(2) [OF a(2)]
  ultimately show ?thesis using assms(2) unfolding t by auto
next
  case False
  with assms(1) obtain bucket v lg sg pl where
    "stack = [Bucket bucket, Vpc v, LogGroup lg, SecurityGroup sg, PrefixList pl]"
    by (rule cloud_infra_secondary)
  with assms(2) show ?thesis by simp
qed

lemma stack_no_stress:
  assumes "cloud_infra env config apps = Inr stack" and "t \<in> set (templates stack)"
  shows "\<not> is_ecs_task_cpustress t \<and> \<not> is_ecs_task_iostress t"
  using stack_template_kinds [OF assms]
  by (auto simp add: is_ecs_task_cpustress_def is_ecs_task_iostress_def)

text \<open>
  Claim C9. No template of a composed stack, and so none of a written manifest, runs
  the action of the task CPU-stress or of the task IO-stress experiment, in any region
  and for any configuration. Both composers are still there: on a configuration with
  the keys of every region they return a template of their kind.
\<close>

theorem stress_experiments_not_composed:
  "(cloud_infra env config apps = Inr stack \<longrightarrow>
      (\<forall>t \<in> set (templates stack). \<not> is_ecs_task_cpustress t \<and> \<not> is_ecs_task_iostress t)) \<and>
   (main files cidr src_branch apps = Inr stacks \<longrightarrow>
      (\<forall>st \<in> set stacks. \<forall>t \<in> set (templates (st_constructs st)).
         \<not> is_ecs_task_cpustress t \<and> \<not> is_ecs_task_iostress t)) \<and>
   (create_fis_ecs_task_cpustress_experiment config rl lg a p = Inr t \<longrightarrow>
      is_ecs_task_cpustress t) \<and>
   (create_fis_ecs_task_iostress_experiment config rl lg a p = Inr t \<longrightarrow>
      is_ecs_task_iostress t) \<and>
   (set regional_keys \<subseteq> dom config \<longrightarrow>
      (\<exists>t. create_fis_ecs_task_cpustress_experiment config rl lg a p = Inr t) \<and>
      (\<exists>t. create_fis_ecs_task_iostress_experiment config rl lg a p = Inr t))"
proof (intro conjI impI ballI)
  fix t
  assume "cloud_infra env config apps = Inr stack" and "t \<in> set (templates stack)"
  then have n: "\<not> is_ecs_task_cpustress t \<and> \<not> is_ecs_task_iostress t"
    by (rule stack_no_stress)
  from n show "\<not> is_ecs_task_cpustress t" ..
  from n show "\<not> is_ecs_task_iostress t" ..
next
  fix st t
  assume m: "main files cidr src_branch apps = Inr stacks" and s: "st \<in> set stacks"
    and t: "t \<in> set (templates (st_constructs st))"
  from m s obtain sect acct where
    "cloud_infra \<lparr>account = acct, region = st_region st, lookup_cidr = cidr\<rparr>
       (region_context sect primary_region (st_region st)) apps = Inr (st_constructs st)"
    by (rule main_stack)
  from stack_no_stress [OF this t]
  show "\<not> is_ecs_task_cpustress t" and "\<not> is_ecs_task_iostress t"
    by simp_all
next
  assume "create_fis_ecs_task_cpustress_experiment config rl lg a p = Inr t"
  then show "is_ecs_task_cpustress t"
    by (simp add: is_ecs_task_cpustress_def cpustress_shape(1))
next
  assume "create_fis_ecs_task_iostress_experiment config rl lg a p = Inr t"
  then show "is_ecs_task_iostress t"
    by (simp add: is_ecs_task_iostress_def iostress_shape(1))
next
  assume k: "set regional_keys \<subseteq> dom config"
  then show "\<exists>t. create_fis_ecs_task_cpustress_experiment config rl lg a p = Inr t"
    by (rule create_fis_ecs_task_cpustress_experiment_total)
  from k show "\<exists>t. create_fis_ecs_task_iostress_experiment config rl lg a p = Inr t"
    by (rule create_fis_ecs_task_iostress_experiment_total)
qed

theorem stress_experiments_not_composed_witness:
  "(\<exists>stack. cloud_infra (dev_env ''eu-central-1'')
       (region_context dev_profile primary_region ''eu-central-1'') [two_url_app] = Inr stack \<and>
     length (templates stack) = 7 \<and>
     filter is_ecs_task_cpustress (templates stack) = [] \<and>
     filter is_ecs_task_iostress (templates stack) = []) \<and>
   (\<exists>stacks. main dev_files (\<lambda>v. ''10.0.0.0/16'') None [] = Inr stacks \<and>
     concat (map (\<lambda>st. filter is_ecs_task_cpustress (templates (st_constructs st))) stacks) = [] \<and>
     concat (map (\<lambda>st. filter is_ecs_task_iostress (templates (st_constructs st))) stacks) = []) \<and>
   set regional_keys \<subseteq> dom dev_profile \<and>
   (\<exists>rl lg t. create_fis_ecs_task_cpustress_experiment dev_profile rl lg ''svc-a'' ''25'' = Inr t \<and>
      is_ecs_task_cpustress t) \<and>
   (\<exists>rl lg t. create_fis_ecs_task_iostress_experiment dev_profile rl lg ''svc-a'' ''25'' = Inr t \<and>
      is_ecs_task_iostress t)"
proof (intro conjI)
  let ?eu = "region_context dev_profile primary_region ''eu-central-1''"
  have g: "is_primary ?eu"
    by (simp add: is_primary_region_context primary_region_eq)
  have "\<exists>stack. cloud_infra (dev_env ''eu-central-1'') ?eu [two_url_app] = Inr stack"
    by (rule cloud_infra_total_primary [OF g dev_context_keys])
  then obtain stack where
    s: "cloud_infra (dev_env ''eu-central-1'') ?eu [two_url_app] = Inr stack" ..
  note n = stress_experiments_not_composed [where env = "dev_env ''eu-central-1''"
      and config = ?eu and apps = "[two_url_app]" and stack = stack, THEN conjunct1,
      rule_format, OF s]
  then have f: "filter is_ecs_task_cpustress (templates stack) = []"
    "filter is_ecs_task_iostress (templates stack) = []"
    by (simp_all add: filter_empty_conv)
  from templates_count [OF s g] have l: "length (templates stack) = 7"
    by (auto simp add: region_context_def dev_profile_def)
  show "\<exists>stack. cloud_infra (dev_env ''eu-central-1'') ?eu [two_url_app] = Inr stack \<and>
     length (templates stack) = 7 \<and>
     filter is_ecs_task_cpustress (templates stack) = [] \<and>
     filter is_ecs_task_iostress (templates stack) = []"
    using s l f by (intro exI [of _ stack] conjI)
  have "\<exists>stacks. main dev_files (\<lambda>v. ''10.0.0.0/16'') None [] = Inr stacks"
    using dev_profile_keys by (intro main_total) (simp_all add: dev_files_def getenv_def)
  then obtain stacks where m: "main dev_files (\<lambda>v. ''10.0.0.0/16'') None [] = Inr stacks" ..
  note stress_experiments_not_composed [where files = dev_files
      and cidr = "\<lambda>v. ''10.0.0.0/16''" and src_branch = None and apps = "[]"
      and stacks = stacks, THEN conjunct2, THEN conjunct1, rule_format, OF m]
  then have c: "concat (map (\<lambda>st. filter is_ecs_task_cpustress (templates (st_constructs st)))
        stacks) = []"
      "concat (map (\<lambda>st. filter is_ecs_task_iostress (templates (st_constructs st)))
        stacks) = []"
    by (simp_all add: filter_empty_conv)
  show "\<exists>stacks. main dev_files (\<lambda>v. ''10.0.0.0/16'') None [] = Inr stacks \<and>
     concat (map (\<lambda>st. filter is_ecs_task_cpustress (templates (st_constructs st))) stacks) = [] \<and>
     concat (map (\<lambda>st. filter is_ecs_task_iostress (templates (st_constructs st))) stacks) = []"
    using m c by (intro exI [of _ stacks] conjI)
  show k: "set regional_keys \<subseteq> dom dev_profile" by (rule dev_profile_keys)
  note e = stress_experiments_not_composed [where config = dev_profile and a = "''svc-a''"
      and p = "''25''", THEN conjunct2, THEN conjunct2, THEN conjunct2, THEN conjunct2,
      rule_format, OF k]
  note c = stress_experiments_not_composed [where config = dev_profile and a = "''svc-a''"
      and p = "''25''", THEN conjunct2, THEN conjunct2, THEN conjunct1, rule_format]
  note i = stress_experiments_not_composed [where config = dev_profile and a = "''svc-a''"
      and p = "''25''", THEN conjunct2, THEN conjunct2, THEN conjunct2, THEN conjunct1,
      rule_format]
  from e c show "\<exists>rl lg t.
      create_fis_ecs_task_cpustress_experiment dev_profile rl lg ''svc-a'' ''25'' = Inr t \<and>
      is_ecs_task_cpustress t"
    by blast
  from e i show "\<exists>rl lg t.
      create_fis_ecs_task_iostress_experiment dev_profile rl lg ''svc-a'' ''25'' = Inr t \<and>
      is_ecs_task_iostress t"
    by blast
qed

section \<open>The security group of the canaries\<close>

lemma canary_security_group_shape:
  assumes "create_canary_security_group config v = Inr (sg, pl)"
  shows "\<not> sg_allow_all_outbound sg \<and> sg_vpc sg = v \<and>
     (\<exists>plid. config ''s3_prefix_list'' = Some plid \<and> pl_prefix_list_id pl = plid \<and>
        sg_egress_rules sg =
          [(Ipv4 (vpc_cidr_block v), Tcp 443), (PrefixListPeer plid, Tcp 443)]) \<and>
     sg_ingress_rules sg = []"
  using assms
  by (auto simp add: create_canary_security_group_def bind_res_eq_Inr getitem_eq_Inr Let_def
      new_security_group_def add_egress_rule_def from_prefix_list_id_def)

lemma lookup_vpc_shape:
  assumes "lookup_vpc env config = Inr v"
  shows "\<exists>vid. config ''vpc_id'' = Some vid \<and> vpc_id v = vid \<and>
     vpc_cidr_block v = lookup_cidr env vid"
  using assms
  by (auto simp add: lookup_vpc_def bind_res_eq_Inr fstr_eq_Inr cval_def)

lemma stack_security_group:
  assumes "cloud_infra env config apps = Inr stack"
  shows "\<exists>sg vid plid. [c \<leftarrow> stack. \<exists>g. c = SecurityGroup g] = [SecurityGroup sg] \<and>
     config ''vpc_id'' = Some vid \<and> config ''s3_prefix_list'' = Some plid \<and>
     \<not> sg_allow_all_outbound sg \<and>
     sg_egress_rules sg =
       [(Ipv4 (lookup_cidr env vid), Tcp 443), (PrefixListPeer plid, Tcp 443)] \<and>
     sg_ingress_rules sg = []"
proof -
  from assms obtain bucket v lg fis cr sg pl cans where
    v: "lookup_vpc env config = Inr v"
    and g: "create_canary_security_group config v = Inr (sg, pl)"
    and s: "stack = [Bucket bucket, Vpc v, LogGroup lg] @ fis @
         (case cr of None \<Rightarrow> [] | Some r \<Rightarrow> [Role r]) @
         [SecurityGroup sg, PrefixList pl] @ map Canary (concat cans)"
    and f: "if is_primary config then fis_resources env config lg = Inr fis else fis = []"
    by (rule cloud_infra_Inr)
  have "[c \<leftarrow> fis. \<exists>g. c = SecurityGroup g] = []"
  proof (cases "is_primary config")
    case True
    with f have "fis_resources env config lg = Inr fis" by simp
    then show ?thesis
      by (rule fis_resources_Inr) (simp add: filter_empty_conv image_iff)
  next
    case False
    with f show ?thesis by simp
  qed
  with s have l: "[c \<leftarrow> stack. \<exists>g. c = SecurityGroup g] = [SecurityGroup sg]"
    by (simp add: filter_empty_conv image_iff split: option.splits)
  from lookup_vpc_shape [OF v] canary_security_group_shape [OF g] l show ?thesis
    by auto
qed

text \<open>
  Claim C7. The security group that the network composer returns was created without
  the allow-all outbound rule and has exactly two egress rules, in this order: TCP port
  443 to the CIDR block of the VPC it was given and TCP port 443 to the prefix list
  named by \<^verbatim>\<open>s3_prefix_list\<close>; it has no ingress rule. The one security group of a
  composed stack is this group for the VPC that \<^verbatim>\<open>vpc_id\<close> names.
\<close>

theorem canary_security_group_egress_only:
  "(create_canary_security_group config v = Inr (sg, pl) \<longrightarrow>
      \<not> sg_allow_all_outbound sg \<and> sg_vpc sg = v \<and>
      (\<exists>plid. config ''s3_prefix_list'' = Some plid \<and> pl_prefix_list_id pl = plid \<and>
         sg_egress_rules sg =
           [(Ipv4 (vpc_cidr_block v), Tcp 443), (PrefixListPeer plid, Tcp 443)]) \<and>
      sg_ingress_rules sg = []) \<and>
   (cloud_infra env config apps = Inr stack \<longrightarrow>
      (\<exists>sg' vid plid. [c \<leftarrow> stack. \<exists>g. c = SecurityGroup g] = [SecurityGroup sg'] \<and>
         config ''vpc_id'' = Some vid \<and> config ''s3_prefix_list'' = Some plid \<and>
         \<not> sg_allow_all_outbound sg' \<and>
         sg_egress_rules sg' =
           [(Ipv4 (lookup_cidr env vid), Tcp 443), (PrefixListPeer plid, Tcp 443)] \<and>
         sg_ingress_rules sg' = []))"
  by (intro conjI impI canary_security_group_shape stack_security_group)

theorem canary_security_group_egress_only_witness:
  "(\<exists>v sg pl. lookup_vpc (dev_env ''us-east-1'')
        (region_context dev_profile primary_region ''us-east-1'') = Inr v \<and>
      create_canary_security_group (region_context dev_profile primary_region ''us-east-1'') v =
        Inr (sg, pl) \<and>
      \<not> sg_allow_all_outbound sg \<and>
      sg_egress_rules sg =
        [(Ipv4 ''10.0.0.0/16'', Tcp 443), (PrefixListPeer ''pl-6ea54007'', Tcp 443)] \<and>
      sg_ingress_rules sg = []) \<and>
   (\<exists>stack sg. cloud_infra (dev_env ''us-east-1'')
        (region_context dev_profile primary_region ''us-east-1'') [] = Inr stack \<and>
      [c \<leftarrow> stack. \<exists>g. c = SecurityGroup g] = [SecurityGroup sg] \<and>
      \<not> sg_allow_all_outbound sg \<and>
      sg_egress_rules sg =
        [(Ipv4 ''10.0.0.0/16'', Tcp 443), (PrefixListPeer ''pl-6ea54007'', Tcp 443)] \<and>
      sg_ingress_rules sg = [])"
proof (intro conjI)
  let ?us = "region_context dev_profile primary_region ''us-east-1''"
  have p: "?us ''s3_prefix_list'' = Some ''pl-6ea54007''"
    by (simp add: region_context_def dev_profile_def)
  from lookup_vpc_total [OF dev_context_keys(1)] obtain v where
    v: "lookup_vpc (dev_env ''us-east-1'') ?us = Inr v" by blast
  from lookup_vpc_shape [OF v] have c: "vpc_cidr_block v = ''10.0.0.0/16''"
    by (auto simp add: dev_env_def)
  from create_canary_security_group_total [OF dev_context_keys(1)] obtain sg pl where
    g: "create_canary_security_group ?us v = Inr (sg, pl)" by blast
  from canary_security_group_egress_only [where config = ?us and v = v and sg = sg and pl = pl,
      THEN conjunct1, rule_format, OF g] p c
  have "\<not> sg_allow_all_outbound sg"
    "sg_egress_rules sg =
       [(Ipv4 ''10.0.0.0/16'', Tcp 443), (PrefixListPeer ''pl-6ea54007'', Tcp 443)]"
    "sg_ingress_rules sg = []"
    by auto
  with v g show "\<exists>v sg pl. lookup_vpc (dev_env ''us-east-1'') ?us = Inr v \<and>
      create_canary_security_group ?us v = Inr (sg, pl) \<and>
      \<not> sg_allow_all_outbound sg \<and>
      sg_egress_rules sg =
        [(Ipv4 ''10.0.0.0/16'', Tcp 443), (PrefixListPeer ''pl-6ea54007'', Tcp 443)] \<and>
      sg_ingress_rules sg = []"
    by (intro exI [of _ v] exI [of _ sg] exI [of _ pl] conjI)
  have n: "\<not> is_primary ?us"
    by (simp add: is_primary_region_context primary_region_eq)
  have "\<exists>stack. cloud_infra (dev_env ''us-east-1'') ?us [] = Inr stack"
    by (rule cloud_infra_total_secondary [OF n dev_context_keys(1)]) simp
  then obtain stack where s: "cloud_infra (dev_env ''us-east-1'') ?us [] = Inr stack" ..
  from canary_security_group_egress_only [where env = "dev_env ''us-east-1''" and config = ?us
      and apps = "[]" and stack = stack, THEN conjunct2, rule_format, OF s]
  obtain sg' vid plid where
    l: "[c \<leftarrow> stack. \<exists>g. c = SecurityGroup g] = [SecurityGroup sg']"
    and k: "?us ''s3_prefix_list'' = Some plid"
    and a: "\<not> sg_allow_all_outbound sg'"
    and e: "sg_egress_rules sg' =
       [(Ipv4 (lookup_cidr (dev_env ''us-east-1'') vid), Tcp 443), (PrefixListPeer plid, Tcp 443)]"
    and i: "sg_ingress_rules sg' = []"
    by blast
  from k p have "plid = ''pl-6ea54007''" by simp
  with e have e': "sg_egress_rules sg' =
       [(Ipv4 ''10.0.0.0/16'', Tcp 443), (PrefixListPeer ''pl-6ea54007'', Tcp 443)]"
    by (simp add: dev_env_def)
  from s l a e' i show "\<exists>stack sg. cloud_infra (dev_env ''us-east-1'') ?us [] = Inr stack \<and>
      [c \<leftarrow> stack. \<exists>g. c = SecurityGroup g] = [SecurityGroup sg] \<and>
      \<not> sg_allow_all_outbound sg \<and>
      sg_egress_rules sg =
        [(Ipv4 ''10.0.0.0/16'', Tcp 443), (PrefixListPeer ''pl-6ea54007'', Tcp 443)] \<and>
      sg_ingress_rules sg = []"
    by (intro exI [of _ stack] exI [of _ sg'] conjI)
qed

section \<open>The targets of the task-stop experiment\<close>





section \<open>Composition as a function of the keys it reads\<close>

lemma fstr_cong_keys:
  "(\<forall>k \<in> set (keys_of ps). c1 k = c2 k) \<Longrightarrow> fstr c1 ps = fstr c2 ps"
  by (induction ps rule: keys_of.induct) (simp_all add: fstr.simps getitem_def)

lemma stack_keys_agree:
  assumes "\<forall>k \<in> set stack_keys. c1 k = c2 k"
  shows "c1 ''resource_prefix'' = c2 ''resource_prefix''"
    "c1 ''service_name'' = c2 ''service_name''"
    "c1 ''app_env'' = c2 ''app_env''" "c1 ''app_name'' = c2 ''app_name''"
    "c1 ''resource_suffix'' = c2 ''resource_suffix''"
    "c1 ''workload_account'' = c2 ''workload_account''"
    "c1 ''vpc_id'' = c2 ''vpc_id''" "c1 ''s3_prefix_list'' = c2 ''s3_prefix_list''"
    "c1 ''subnet_az1_list'' = c2 ''subnet_az1_list''" "c1 ''az1_name'' = c2 ''az1_name''"
    "c1 ''db_clusters'' = c2 ''db_clusters''"
    "c1 ''subnet_az2_list'' = c2 ''subnet_az2_list''" "c1 ''az2_name'' = c2 ''az2_name''"
    "c1 ''ecs_services'' = c2 ''ecs_services''"
    "c1 ''ecs_taks_percents'' = c2 ''ecs_taks_percents''"
    "c1 ''deployment_region'' = c2 ''deployment_region''"
    "c1 ''primary_region'' = c2 ''primary_region''"
  using assms
  by (simp_all add: stack_keys_def regional_keys_def naming_keys_def primary_keys_def)

lemma cloud_infra_cong:
  assumes "\<forall>k \<in> set stack_keys. c1 k = c2 k"
  shows "cloud_infra env c1 apps = cloud_infra env c2 apps"
proof -
  note k = stack_keys_agree [OF assms]
  note f = fstr_cong_keys [where ?c1.0 = c1 and ?c2.0 = c2]
  have g: "getitem c1 x = getitem c2 x" if "c1 x = c2 x" for x
    using that by (simp add: getitem_def)
  have 1: "create_artifact_store c1 = create_artifact_store c2"
    by (simp add: create_artifact_store_def f k keys_of_append keys_of_name_prefix)
  have 2: "lookup_vpc env c1 = lookup_vpc env c2"
    by (simp add: lookup_vpc_def f k keys_of_append keys_of_name_prefix)
  have 3: "create_log_group c1 = create_log_group c2"
    by (simp add: create_log_group_def f k keys_of_append keys_of_name_prefix)
  have 4: "create_fis_role env c1 = create_fis_role env c2"
    by (simp add: create_fis_role_def f k keys_of_append keys_of_name_prefix)
  have 5: "create_fis_network_subnet_experiment env c1 = create_fis_network_subnet_experiment env c2"
    by (intro ext)
      (simp add: create_fis_network_subnet_experiment_def f k keys_of_append keys_of_name_prefix)
  have 6: "create_fis_ecs_task_stop_experiment c1 = create_fis_ecs_task_stop_experiment c2"
    by (intro ext)
      (simp add: create_fis_ecs_task_stop_experiment_def f k keys_of_append keys_of_name_prefix)
  have 7: "create_fis_rds_failover_experiment env c1 = create_fis_rds_failover_experiment env c2"
    by (intro ext)
      (simp add: create_fis_rds_failover_experiment_def f k keys_of_append keys_of_name_prefix)
  have 8: "fis_resources env c1 = fis_resources env c2"
    by (intro ext) (simp add: fis_resources_def 4 5 6 7 g k)
  have 9: "create_canary_role env c1 = create_canary_role env c2"
    by (intro ext)
      (simp add: create_canary_role_def f k keys_of_append keys_of_name_prefix)
  have 10: "create_canary_security_group c1 = create_canary_security_group c2"
    by (intro ext)
      (simp add: create_canary_security_group_def f g k keys_of_append keys_of_name_prefix)
  have 11: "create_canary env c1 = create_canary env c2"
    by (intro ext)
      (simp add: create_canary_def f k keys_of_append keys_of_name_prefix)
  have 12: "app_canaries env c1 = app_canaries env c2"
    by (intro ext) (simp add: app_canaries_def 11)
  have 13: "is_primary c1 = is_primary c2"
    by (simp add: is_primary_def k)
  show ?thesis
    unfolding cloud_infra_def canary_script_data_def 1 2 3 8 9 10 12 13 ..
qed

lemma for_each_cong_set: "(\<And>x. x \<in> set xs \<Longrightarrow> f x = g x) \<Longrightarrow> for_each f xs = for_each g xs"
  by (induction xs) simp_all

lemma main_cong:
  assumes "\<forall>(rgn, fl) \<in> set region_config_files.
      files1 fl (getenv src_branch ''dev'') = files2 fl (getenv src_branch ''dev'')"
  shows "main files1 cidr src_branch apps = main files2 cidr src_branch apps"
  unfolding main_def Let_def
  using assms by (intro for_each_cong_set) (auto simp add: compose_region_def)

section \<open>Names without whitespace\<close>

lemma no_whitespace_Nil [simp]: "no_whitespace []"
  by (simp add: no_whitespace_def)

lemma no_whitespace_Cons: "no_whitespace (c # s) \<longleftrightarrow> \<not> is_space c \<and> no_whitespace s"
  by (simp add: no_whitespace_def)

lemma no_whitespace_append: "no_whitespace (a @ b) \<longleftrightarrow> no_whitespace a \<and> no_whitespace b"
  by (auto simp add: no_whitespace_def)

lemma split_on_subset: "w \<in> set (split_on c s) \<Longrightarrow> set w \<subseteq> set s"
proof (induction s arbitrary: w)
  case Nil
  then show ?case by simp
next
  case (Cons a s)
  obtain u us where r: "split_on c s = u # us"
    using split_on_nonempty [of c s] by (cases "split_on c s") auto
  from Cons.IH [of u] r have u: "set u \<subseteq> set s" by simp
  have us: "set y \<subseteq> set s" if "y \<in> set us" for y
    using Cons.IH [of y] r that by simp
  show ?case
  proof (cases "a = c")
    case True
    with Cons.prems r have "w = [] \<or> w = u \<or> w \<in> set us" by auto
    with u us show ?thesis by auto
  next
    case False
    with Cons.prems r have "w = a # u \<or> w \<in> set us" by auto
    with u us show ?thesis by auto
  qed
qed

lemma no_whitespace_split:
  "no_whitespace s \<Longrightarrow> x \<in> set (split_on c s) \<Longrightarrow> no_whitespace x"
  using split_on_subset [of x c s] by (auto simp add: no_whitespace_def)

lemma loop_all_mem:
  assumes "list_all2 (\<lambda>p t. f p = Inr t) P ts"
    and "\<And>p t. p \<in> set P \<Longrightarrow> f p = Inr t \<Longrightarrow> Q t"
  shows "\<forall>t \<in> set ts. Q t"
proof -
  have "\<forall>t \<in> set ts. \<exists>p \<in> set P. f p = Inr t"
    using assms(1) by (induction rule: list_all2_induct) auto
  with assms(2) show ?thesis by blast
qed

lemma nested_loop_all_mem:
  assumes "list_all2 (\<lambda>s ts. list_all2 (\<lambda>p t. f s p = Inr t) P ts) S tss"
    and "\<And>s p t. s \<in> set S \<Longrightarrow> p \<in> set P \<Longrightarrow> f s p = Inr t \<Longrightarrow> Q t"
  shows "\<forall>t \<in> set (concat tss). Q t"
  using assms
proof (induction rule: list_all2_induct)
  case Nil
  show ?case by simp
next
  case (Cons s S ts tss)
  from Cons.hyps(1) have "\<forall>t \<in> set ts. Q t"
    by (rule loop_all_mem) (rule Cons.prems, simp_all)
  moreover have "\<forall>t \<in> set (concat tss). Q t"
    by (rule Cons.IH) (rule Cons.prems, simp_all)
  ultimately show ?case by auto
qed

lemma name_keys_clean:
  assumes "\<forall>k \<in> set name_keys. no_whitespace (cval config k)"
  shows "no_whitespace (cval config ''resource_prefix'')"
    "no_whitespace (cval config ''service_name'')"
    "no_whitespace (cval config ''app_env'')" "no_whitespace (cval config ''app_name'')"
    "no_whitespace (cval config ''resource_suffix'')"
    "no_whitespace (cval config ''workload_account'')"
    "no_whitespace (cval config ''ecs_services'')"
    "no_whitespace (cval config ''ecs_taks_percents'')"
    "no_whitespace (cval config ''db_clusters'')"
  using assms by (simp_all add: name_keys_def naming_keys_def)

lemmas clean_simps = name_prefix_def no_whitespace_append no_whitespace_Cons is_space_def
  bind_res_eq_Inr fstr_eq_Inr

lemma names_bucket:
  assumes "create_artifact_store config = Inr b"
    and "\<forall>k \<in> set name_keys. no_whitespace (cval config k)"
  shows "\<forall>n \<in> set (construct_names (Bucket b)). no_whitespace n"
  using assms(1) name_keys_clean [OF assms(2)]
  by (auto simp add: create_artifact_store_def clean_simps)

lemma names_vpc:
  assumes "lookup_vpc env config = Inr v"
    and "\<forall>k \<in> set name_keys. no_whitespace (cval config k)"
  shows "\<forall>n \<in> set (construct_names (Vpc v)). no_whitespace n"
  using assms(1) name_keys_clean [OF assms(2)]
  by (auto simp add: lookup_vpc_def clean_simps)

lemma names_log_group:
  assumes "create_log_group config = Inr lg"
    and "\<forall>k \<in> set name_keys. no_whitespace (cval config k)"
  shows "\<forall>n \<in> set (construct_names (LogGroup lg)). no_whitespace n"
  using assms(1) name_keys_clean [OF assms(2)]
  by (auto simp add: create_log_group_def clean_simps)

lemma names_fis_role:
  assumes "create_fis_role env config = Inr r"
    and "\<forall>k \<in> set name_keys. no_whitespace (cval config k)"
  shows "\<forall>n \<in> set (construct_names (Role r)). no_whitespace n"
  using assms(1) name_keys_clean [OF assms(2)]
  by (auto simp add: create_fis_role_def clean_simps)

lemma names_canary_role:
  assumes "create_canary_role env config bn = Inr r"
    and "\<forall>k \<in> set name_keys. no_whitespace (cval config k)"
  shows "\<forall>n \<in> set (construct_names (Role r)). no_whitespace n"
  using assms(1) name_keys_clean [OF assms(2)]
  by (auto simp add: create_canary_role_def clean_simps)

lemma names_security_group:
  assumes "create_canary_security_group config v = Inr (sg, pl)"
    and "\<forall>k \<in> set name_keys. no_whitespace (cval config k)"
  shows "\<forall>n \<in> set (construct_names (SecurityGroup sg) @ construct_names (PrefixList pl)).
    no_whitespace n"
  using assms(1) name_keys_clean [OF assms(2)]
  by (auto simp add: create_canary_security_group_def clean_simps Let_def
      new_security_group_def add_egress_rule_def from_prefix_list_id_def)

lemma names_az:
  assumes "create_fis_network_subnet_experiment env config sl tn rl lg az dbs = Inr t"
    and "\<forall>k \<in> set name_keys. no_whitespace (cval config k)" and "no_whitespace tn"
  shows "\<forall>n \<in> set (construct_names (ExperimentTemplate t)). no_whitespace n"
  using assms(1,3) name_keys_clean [OF assms(2)]
  by (auto simp add: create_fis_network_subnet_experiment_def clean_simps Let_def)

lemma names_task_stop:
  assumes "create_fis_ecs_task_stop_experiment config rl lg a p = Inr t"
    and "\<forall>k \<in> set name_keys. no_whitespace (cval config k)"
    and "no_whitespace a" and "no_whitespace p"
  shows "\<forall>n \<in> set (construct_names (ExperimentTemplate t)). no_whitespace n"
  using assms(1,3,4) name_keys_clean [OF assms(2)]
  by (auto simp add: create_fis_ecs_task_stop_experiment_def clean_simps)

lemma names_rds:
  assumes "create_fis_rds_failover_experiment env config rl lg d = Inr t"
    and "\<forall>k \<in> set name_keys. no_whitespace (cval config k)" and "no_whitespace d"
  shows "\<forall>n \<in> set (construct_names (ExperimentTemplate t)). no_whitespace n"
  using assms(1,3) name_keys_clean [OF assms(2)]
  by (auto simp add: create_fis_rds_failover_experiment_def clean_simps)

lemma names_canary:
  assumes "create_canary env config v sn sg r url script nm bn = Inr c"
    and "\<forall>k \<in> set name_keys. no_whitespace (cval config k)" and "no_whitespace nm"
  shows "\<forall>n \<in> set (construct_names (Canary c)). no_whitespace n"
  using assms(1,3) name_keys_clean [OF assms(2)]
  by (auto simp add: create_canary_def clean_simps)

lemma names_app_canaries:
  assumes "app_canaries env config v sg (Some r) script bn app = Inr cs"
    and "\<forall>k \<in> set name_keys. no_whitespace (cval config k)"
    and "\<forall>n \<in> set (get_app_names app). no_whitespace n"
    and "no_whitespace (get_canary_name app)"
  shows "\<forall>c \<in> set cs. \<forall>n \<in> set (construct_names (Canary c)). no_whitespace n"
proof -
  from assms(1) have "list_all2 (\<lambda>(app_name, app_url) c.
      create_canary env config v [get_subnet_id app] [security_group_id sg] r app_url script
        (app_name @ ''-'' @ get_canary_name app) bn = Inr c)
      (zip (get_app_names app) (get_app_urls app)) cs"
    by (simp add: app_canaries_def for_each_eq_Inr case_prod_unfold)
  then have "list_all2 (\<lambda>x c.
      create_canary env config v [get_subnet_id app] [security_group_id sg] r (snd x) script
        (fst x @ ''-'' @ get_canary_name app) bn = Inr c)
      (zip (get_app_names app) (get_app_urls app)) cs"
    by (simp add: case_prod_unfold)
  then show ?thesis
  proof (rule loop_all_mem)
    fix x c
    assume x: "x \<in> set (zip (get_app_names app) (get_app_urls app))"
      and c: "create_canary env config v [get_subnet_id app] [security_group_id sg] r (snd x)
        script (fst x @ ''-'' @ get_canary_name app) bn = Inr c"
    obtain a b where ab: "x = (a, b)" by (cases x)
    from x [unfolded ab] have "a \<in> set (get_app_names app)"
      by (rule set_zip_leftD)
    with ab have "fst x \<in> set (get_app_names app)" by simp
    with assms(3,4) have "no_whitespace (fst x @ ''-'' @ get_canary_name app)"
      by (simp add: no_whitespace_append no_whitespace_Cons is_space_def)
    with c assms(2) show "\<forall>n \<in> set (construct_names (Canary c)). no_whitespace n"
      by (rule names_canary)
  qed
qed

lemma names_all_canaries:
  assumes "for_each (app_canaries env config v sg (Some r) script bn) apps = Inr cans"
    and "\<forall>k \<in> set name_keys. no_whitespace (cval config k)"
    and "\<forall>app \<in> set apps. (\<forall>n \<in> set (get_app_names app). no_whitespace n) \<and>
      no_whitespace (get_canary_name app)"
  shows "\<forall>c \<in> set (concat cans). \<forall>n \<in> set (construct_names (Canary c)). no_whitespace n"
proof -
  from assms(1) have "list_all2 (\<lambda>app cs.
      app_canaries env config v sg (Some r) script bn app = Inr cs) apps cans"
    by (simp add: for_each_eq_Inr)
  then have "\<forall>cs \<in> set cans. \<forall>c \<in> set cs.
      \<forall>n \<in> set (construct_names (Canary c)). no_whitespace n"
  proof (rule loop_all_mem)
    fix app cs
    assume "app \<in> set apps" and "app_canaries env config v sg (Some r) script bn app = Inr cs"
    with assms(2,3) show "\<forall>c \<in> set cs. \<forall>n \<in> set (construct_names (Canary c)). no_whitespace n"
      by (intro names_app_canaries [where app = app]) auto
  qed
  then show ?thesis by auto
qed

text \<open>
  Every name of a composed stack is free of whitespace when the configuration values
  that reach a name and the names of the applications are.
\<close>

lemma stack_names_clean:
  assumes "cloud_infra env config apps = Inr stack"
    and k: "\<forall>k \<in> set name_keys. no_whitespace (cval config k)"
    and a: "\<forall>app \<in> set apps. (\<forall>n \<in> set (get_app_names app). no_whitespace n) \<and>
      no_whitespace (get_canary_name app)"
  shows "\<forall>c \<in> set stack. \<forall>n \<in> set (construct_names c). no_whitespace n"
proof (cases "is_primary config")
  case False
  with assms(1) obtain bucket v lg sg pl where
    c: "create_artifact_store config = Inr bucket"
      "lookup_vpc env config = Inr v"
      "create_log_group config = Inr lg"
      "create_canary_security_group config v = Inr (sg, pl)"
    and s: "stack = [Bucket bucket, Vpc v, LogGroup lg, SecurityGroup sg, PrefixList pl]"
    by (rule cloud_infra_secondary)
  from names_bucket [OF c(1) k] names_vpc [OF c(2) k] names_log_group [OF c(3) k]
    names_security_group [OF c(4) k]
  show ?thesis unfolding s by simp
next
  case True
  with assms(1) obtain bucket v lg fis_role az1 az2 ecs rds cr sg pl cans sl1 n1 sl2 n2 ss ps dbs
    where c: "create_artifact_store config = Inr bucket"
      "lookup_vpc env config = Inr v"
      "create_log_group config = Inr lg"
      "create_fis_role env config = Inr fis_role"
    and d: "config ''db_clusters'' = Some dbs"
      "config ''ecs_services'' = Some ss" "config ''ecs_taks_percents'' = Some ps"
    and z: "create_fis_network_subnet_experiment env config sl1 ''az1'' fis_role lg n1 dbs
        = Inr az1"
      "create_fis_network_subnet_experiment env config sl2 ''az2'' fis_role lg n2 dbs = Inr az2"
    and e: "list_all2 (\<lambda>s ts. list_all2 (\<lambda>p t.
           create_fis_ecs_task_stop_experiment config fis_role lg s p = Inr t)
         (split_on CHR '','' ps) ts) (split_on CHR '','' ss) ecs"
    and r: "list_all2 (\<lambda>d t. create_fis_rds_failover_experiment env config fis_role lg d = Inr t)
         (split_on CHR '','' dbs) rds"
    and g: "create_canary_role env config (bucket_name bucket) = Inr cr"
      "create_canary_security_group config v = Inr (sg, pl)"
    and n: "for_each (app_canaries env config v sg (Some cr) (canary_script_data config)
         (bucket_name bucket)) apps = Inr cans"
    and s: "stack = [Bucket bucket, Vpc v, LogGroup lg, Role fis_role, ExperimentTemplate az1,
           ExperimentTemplate az2] @
         map ExperimentTemplate (concat ecs) @ map ExperimentTemplate rds @
         [Role cr, SecurityGroup sg, PrefixList pl] @ map Canary (concat cans)"
    by (rule cloud_infra_primary)
  note w = name_keys_clean [OF k]
  from w(7,8,9) d have v: "no_whitespace ss" "no_whitespace ps" "no_whitespace dbs"
    by (simp_all add: cval_def)
  have az: "no_whitespace ''az1''" "no_whitespace ''az2''"
    by (simp_all add: no_whitespace_Cons is_space_def)
  from e have 1: "\<forall>t \<in> set (concat ecs).
      \<forall>n \<in> set (construct_names (ExperimentTemplate t)). no_whitespace n"
  proof (rule nested_loop_all_mem)
    fix s p t
    assume "s \<in> set (split_on CHR '','' ss)" and "p \<in> set (split_on CHR '','' ps)"
      and "create_fis_ecs_task_stop_experiment config fis_role lg s p = Inr t"
    with v k show "\<forall>n \<in> set (construct_names (ExperimentTemplate t)). no_whitespace n"
      by (intro names_task_stop [where a = s and p = p]) (auto intro: no_whitespace_split)
  qed
  from r have 2: "\<forall>t \<in> set rds.
      \<forall>n \<in> set (construct_names (ExperimentTemplate t)). no_whitespace n"
  proof (rule loop_all_mem)
    fix x t
    assume "x \<in> set (split_on CHR '','' dbs)"
      and "create_fis_rds_failover_experiment env config fis_role lg x = Inr t"
    with v k show "\<forall>n \<in> set (construct_names (ExperimentTemplate t)). no_whitespace n"
      by (intro names_rds [where d = x]) (auto intro: no_whitespace_split)
  qed
  note 3 = names_all_canaries [OF n k a]
  from names_bucket [OF c(1) k] names_vpc [OF c(2) k] names_log_group [OF c(3) k]
    names_fis_role [OF c(4) k] names_az [OF z(1) k az(1)] names_az [OF z(2) k az(2)]
    names_canary_role [OF g(1) k] names_security_group [OF g(2) k] 1 2 3
  show ?thesis unfolding s by (simp add: ball_Un)
qed

lemma templates_mem: "t \<in> set (templates stack) \<Longrightarrow> ExperimentTemplate t \<in> set stack"
  by (induction stack rule: templates.induct) auto

section \<open>Determinism and the shape of names\<close>

text \<open>
  Claim C5, as amended. The stack that the constructor composes, or the exception it
  raises, is a function of the stack's environment, the application list and the values
  of the keys the constructor reads: two configurations that agree on these keys give
  the same result, and the program's result depends on the profile files only through
  the branch's sections of the files of the region list. So composing twice from the
  same inputs gives the same output and the same names. Every name of a composed stack
  is free of whitespace provided the configuration values that reach a name (the naming
  keys, \<^verbatim>\<open>workload_account\<close>, \<^verbatim>\<open>ecs_services\<close>, \<^verbatim>\<open>ecs_taks_percents\<close>,
  \<^verbatim>\<open>db_clusters\<close>) and the names and canary names of the applications are.
\<close>

theorem composition_deterministic:
  "((\<forall>k \<in> set stack_keys. c1 k = c2 k) \<longrightarrow>
      cloud_infra env c1 apps = cloud_infra env c2 apps) \<and>
   ((\<forall>(rgn, fl) \<in> set region_config_files.
       files1 fl (getenv src_branch ''dev'') = files2 fl (getenv src_branch ''dev'')) \<longrightarrow>
      main files1 cidr src_branch apps = main files2 cidr src_branch apps) \<and>
   (cloud_infra env config apps = Inr stack \<longrightarrow>
    (\<forall>k \<in> set name_keys. no_whitespace (cval config k)) \<longrightarrow>
    (\<forall>app \<in> set apps. (\<forall>n \<in> set (get_app_names app). no_whitespace n) \<and>
       no_whitespace (get_canary_name app)) \<longrightarrow>
      (\<forall>c \<in> set stack. \<forall>n \<in> set (construct_names c). no_whitespace n))"
  by (intro conjI impI cloud_infra_cong main_cong stack_names_clean)

theorem composition_deterministic_witness:
  "list_all (\<lambda>k. region_context dev_profile primary_region ''eu-central-1'' k =
       ((region_context dev_profile primary_region ''eu-central-1'')
         (''cost_center'' \<mapsto> ''cc-2'', ''owner'' \<mapsto> ''team'')) k) stack_keys \<and>
   cloud_infra (dev_env ''eu-central-1'')
       (region_context dev_profile primary_region ''eu-central-1'') [two_url_app] =
     cloud_infra (dev_env ''eu-central-1'')
       ((region_context dev_profile primary_region ''eu-central-1'')
          (''cost_center'' \<mapsto> ''cc-2'', ''owner'' \<mapsto> ''team'')) [two_url_app] \<and>
   main dev_files (\<lambda>v. ''10.0.0.0/16'') None [two_url_app] =
     main (\<lambda>fl. if fl = ''resource.ap-south-1.config'' then Map.empty else dev_files fl)
       (\<lambda>v. ''10.0.0.0/16'') None [two_url_app] \<and>
   list_all (\<lambda>k. no_whitespace
       (cval (region_context dev_profile primary_region ''eu-central-1'') k)) name_keys \<and>
   list_all no_whitespace (get_canary_name two_url_app # get_app_names two_url_app) \<and>
   (\<exists>stack. cloud_infra (dev_env ''eu-central-1'')
        (region_context dev_profile primary_region ''eu-central-1'') [two_url_app] = Inr stack \<and>
      list_all (\<lambda>c. list_all no_whitespace (construct_names c)) stack)"
proof (intro conjI)
  let ?eu = "region_context dev_profile primary_region ''eu-central-1''"
  let ?eu' = "?eu(''cost_center'' \<mapsto> ''cc-2'', ''owner'' \<mapsto> ''team'')"
  let ?files = "\<lambda>fl. if fl = ''resource.ap-south-1.config'' then Map.empty else dev_files fl"
  have a: "\<forall>k \<in> set stack_keys. ?eu k = ?eu' k"
    by (simp add: stack_keys_def regional_keys_def naming_keys_def primary_keys_def)
  then show "list_all (\<lambda>k. ?eu k = ?eu' k) stack_keys"
    by (simp only: list_all_iff)
  from composition_deterministic [where ?c1.0 = ?eu and ?c2.0 = ?eu', THEN conjunct1,
      THEN mp, OF a]
  show "cloud_infra (dev_env ''eu-central-1'') ?eu [two_url_app] =
     cloud_infra (dev_env ''eu-central-1'') ?eu' [two_url_app]" .
  have f: "\<forall>(rgn, fl) \<in> set region_config_files.
       dev_files fl (getenv None ''dev'') = ?files fl (getenv None ''dev'')"
    by (simp add: region_config_files_def)
  from composition_deterministic [where ?files1.0 = dev_files and ?files2.0 = ?files
      and src_branch = None, THEN conjunct2, THEN conjunct1, THEN mp, OF f]
  show "main dev_files (\<lambda>v. ''10.0.0.0/16'') None [two_url_app] =
     main ?files (\<lambda>v. ''10.0.0.0/16'') None [two_url_app]" .
  have k: "\<forall>k \<in> set name_keys. no_whitespace (cval ?eu k)"
    by (simp add: name_keys_def naming_keys_def cval_def region_context_def dev_profile_def
        no_whitespace_Cons is_space_def)
  then show "list_all (\<lambda>k. no_whitespace (cval ?eu k)) name_keys"
    by (simp only: list_all_iff)
  have n: "\<forall>app \<in> set [two_url_app]. (\<forall>n \<in> set (get_app_names app). no_whitespace n) \<and>
       no_whitespace (get_canary_name app)"
    by (simp add: two_url_app_def no_whitespace_Cons is_space_def)
  then show "list_all no_whitespace (get_canary_name two_url_app # get_app_names two_url_app)"
    by (simp add: list_all_iff)
  have g: "is_primary ?eu"
    by (simp add: is_primary_region_context primary_region_eq)
  have "\<exists>stack. cloud_infra (dev_env ''eu-central-1'') ?eu [two_url_app] = Inr stack"
    by (rule cloud_infra_total_primary [OF g dev_context_keys])
  then obtain stack where
    s: "cloud_infra (dev_env ''eu-central-1'') ?eu [two_url_app] = Inr stack" ..
  from composition_deterministic [where config = ?eu and env = "dev_env ''eu-central-1''"
      and apps = "[two_url_app]" and stack = stack, THEN conjunct2, THEN conjunct2,
      THEN mp, THEN mp, THEN mp, OF s k n]
  have "list_all (\<lambda>c. list_all no_whitespace (construct_names c)) stack"
    by (simp add: list_all_iff)
  with s show "\<exists>stack. cloud_infra (dev_env ''eu-central-1'') ?eu [two_url_app] = Inr stack \<and>
      list_all (\<lambda>c. list_all no_whitespace (construct_names c)) stack"
    by (intro exI [of _ stack] conjI)
qed

text \<open>
  The claim as stated fails: with the percentages written \<^verbatim>\<open>25, 50\<close> the second entry
  of the split is \<^verbatim>\<open> 50\<close>, and the template of the first service and that percentage is
  named with a space.
\<close>

theorem name_with_whitespace:
  "\<exists>stack t. cloud_infra (dev_env ''eu-central-1'')
       (region_context (dev_profile(''ecs_taks_percents'' \<mapsto> ''25, 50''))
          primary_region ''eu-central-1'') [] = Inr stack \<and>
     ExperimentTemplate t \<in> set stack \<and>
     et_id t = ''sw-mra-dev-chaos-ecs-taskstop-svc-a-p 50-experiment-main-a'' \<and>
     \<not> no_whitespace (et_id t)"
proof -
  let ?a = "region_context (dev_profile(''ecs_taks_percents'' \<mapsto> ''25, 50''))
      primary_region ''eu-central-1''"
  have g: "is_primary ?a"
    by (simp add: is_primary_region_context primary_region_eq)
  have "set regional_keys \<subseteq> dom ?a" "set primary_keys \<subseteq> dom ?a"
    using dev_profile_keys by (auto simp add: dom_region_context)
  then have "\<exists>stack. cloud_infra (dev_env ''eu-central-1'') ?a [] = Inr stack"
    by (rule cloud_infra_total_primary [OF g])
  then obtain stack where s: "cloud_infra (dev_env ''eu-central-1'') ?a [] = Inr stack" ..
  from task_stop_templates_primary [OF s g] obtain ss ps where
    k: "?a ''ecs_services'' = Some ss" "?a ''ecs_taks_percents'' = Some ps"
    and n: "map et_id (task_stop_templates stack) =
        map (\<lambda>(s, p). task_stop_name ?a s p)
          (List.product (split_on CHR '','' ss) (split_on CHR '','' ps))"
    by blast
  from k have v: "ss = ''svc-a,svc-b''" "ps = ''25, 50''"
    by (simp_all add: region_context_def dev_profile_def)
  from n have "map et_id (task_stop_templates stack) =
      [''sw-mra-dev-chaos-ecs-taskstop-svc-a-p25-experiment-main-a'',
       ''sw-mra-dev-chaos-ecs-taskstop-svc-a-p 50-experiment-main-a'',
       ''sw-mra-dev-chaos-ecs-taskstop-svc-b-p25-experiment-main-a'',
       ''sw-mra-dev-chaos-ecs-taskstop-svc-b-p 50-experiment-main-a'']"
    unfolding v
    by (simp add: task_stop_name_def name_prefix_def cval_def region_context_def dev_profile_def)
  then obtain z t zb zc where "task_stop_templates stack = [z, t, zb, zc]"
    and i: "et_id t = ''sw-mra-dev-chaos-ecs-taskstop-svc-a-p 50-experiment-main-a''"
    by (auto simp add: map_eq_Cons_conv)
  then have t: "t \<in> set (task_stop_templates stack)" by simp
  from t have m: "ExperimentTemplate t \<in> set stack"
    by (simp add: task_stop_templates_def templates_mem)
  have w: "\<not> no_whitespace (et_id t)"
    unfolding i by (simp add: no_whitespace_Cons is_space_def)
  from s m i w show ?thesis
    by (intro exI [of _ stack] exI [of _ t] conjI)
qed

end
